theory Spec2Isabelle
  imports Main
begin

section \<open>Objects and errors\<close>

text \<open>
  An exception of the program is a value of type \<open>error\<close>: an \<^verbatim>\<open>Error\<close> with its
  message, or a \<^verbatim>\<open>TypeError\<close>, of which only the member whose access fails is kept.
\<close>

datatype error = Error string | TypeError string

text \<open>
  An object used as a dictionary is embedded as the map of its own properties. Reading
  \<^verbatim>\<open>obj[key]\<close> of an object literal also finds the members that the object
  inherits from \<^verbatim>\<open>Object.prototype\<close>: functions, and for \<^verbatim>\<open>__proto__\<close> the prototype
  itself. They all count as true in a condition, and none of them is a string or has a
  property \<^verbatim>\<open>in\<close>.
\<close>

definition objectPrototypeMembers :: "string list" where
  "objectPrototypeMembers =
     [''constructor'', ''__defineGetter__'', ''__defineSetter__'', ''hasOwnProperty'',
      ''__lookupGetter__'', ''__lookupSetter__'', ''isPrototypeOf'', ''propertyIsEnumerable'',
      ''toString'', ''valueOf'', ''__proto__'', ''toLocaleString'']"

datatype 'v lookup = Absent | Own 'v | Inherited

definition getProperty :: "(string \<rightharpoonup> 'v) \<Rightarrow> string \<Rightarrow> 'v lookup" where
  "getProperty obj key =
     (case obj key of
        Some v \<Rightarrow> Own v
      | None \<Rightarrow> if key \<in> set objectPrototypeMembers then Inherited else Absent)"

text \<open>
  \<^verbatim>\<open>obj[key] = v\<close>: under the key \<^verbatim>\<open>__proto__\<close> the assignment goes to the setter of
  \<^verbatim>\<open>Object.prototype\<close> and the object gets no property of that name.
\<close>

definition setProperty :: "(string \<rightharpoonup> 'v) \<Rightarrow> string \<Rightarrow> 'v \<Rightarrow> (string \<rightharpoonup> 'v)" where
  "setProperty obj key v = (if key = ''__proto__'' then obj else obj(key \<mapsto> v))"

section \<open>Strings\<close>

text \<open>
  A JavaScript string is embedded as a \<^typ>\<open>string\<close>: one \<^typ>\<open>char\<close> per code unit,
  for code units below 256. Case conversion is the ASCII one (the pipeline applies it to
  names that were reduced to ASCII beforehand and to the words of the abbreviation tables).
\<close>

definition isUpperChar :: "char \<Rightarrow> bool" where
  "isUpperChar c = (let n = (of_char c :: nat) in 65 \<le> n \<and> n \<le> 90)"

definition isLowerChar :: "char \<Rightarrow> bool" where
  "isLowerChar c = (let n = (of_char c :: nat) in 97 \<le> n \<and> n \<le> 122)"

definition isDigitChar :: "char \<Rightarrow> bool" where
  "isDigitChar c = (let n = (of_char c :: nat) in 48 \<le> n \<and> n \<le> 57)"

definition isLetterChar :: "char \<Rightarrow> bool" where
  "isLetterChar c = (isUpperChar c \<or> isLowerChar c)"

definition toUpperChar :: "char \<Rightarrow> char" where
  "toUpperChar c = (if isLowerChar c then char_of ((of_char c :: nat) - 32) else c)"

definition toLowerChar :: "char \<Rightarrow> char" where
  "toLowerChar c = (if isUpperChar c then char_of ((of_char c :: nat) + 32) else c)"

definition toUpperCase :: "string \<Rightarrow> string" where
  "toUpperCase s = map toUpperChar s"

definition toLowerCase :: "string \<Rightarrow> string" where
  "toLowerCase s = map toLowerChar s"

text \<open>\<^verbatim>\<open>String.prototype.trim\<close>: the white space and line terminators below 256.\<close>

definition isWhiteSpace :: "char \<Rightarrow> bool" where
  "isWhiteSpace c = ((of_char c :: nat) \<in> {9, 10, 11, 12, 13, 32, 160})"

definition trim :: "string \<Rightarrow> string" where
  "trim s = rev (dropWhile isWhiteSpace (rev (dropWhile isWhiteSpace s)))"

text \<open>\<^verbatim>\<open>s.split(sep)\<close> for a one-character separator: never the empty list.\<close>

fun splitOn :: "char \<Rightarrow> string \<Rightarrow> string list" where
  "splitOn sep [] = [[]]"
| "splitOn sep (c # cs) =
     (if c = sep then [] # splitOn sep cs
      else (case splitOn sep cs of [] \<Rightarrow> [[c]] | p # ps \<Rightarrow> (c # p) # ps))"

text \<open>\<^verbatim>\<open>parts.join(sep)\<close>.\<close>

fun joinWith :: "string \<Rightarrow> string list \<Rightarrow> string" where
  "joinWith sep [] = []"
| "joinWith sep [p] = p"
| "joinWith sep (p # q # ps) = p @ sep @ joinWith sep (q # ps)"

text \<open>\<^verbatim>\<open>s.substring(0, n)\<close>: a negative \<open>n\<close> counts as 0.\<close>

definition substring0 :: "int \<Rightarrow> string \<Rightarrow> string" where
  "substring0 n s = take (nat n) s"

text \<open>\<^verbatim>\<open>.replace(/-+/g, "-")\<close>: every run of hyphens becomes one hyphen.\<close>

fun collapseHyphens :: "string \<Rightarrow> string" where
  "collapseHyphens (c # d # cs) =
     (if c = CHR ''-'' \<and> d = CHR ''-'' then collapseHyphens (d # cs)
      else c # collapseHyphens (d # cs))"
| "collapseHyphens cs = cs"

text \<open>\<^verbatim>\<open>.replace(/-+$/, "")\<close>: the trailing run of hyphens is removed.\<close>

definition stripTrailingHyphens :: "string \<Rightarrow> string" where
  "stripTrailingHyphens s = rev (dropWhile (\<lambda>c. c = CHR ''-'') (rev s))"

text \<open>\<^verbatim>\<open>.replace(/^-+|-+$/g, "")\<close>: the leading and the trailing run are removed.\<close>

definition trimHyphens :: "string \<Rightarrow> string" where
  "trimHyphens s = stripTrailingHyphens (dropWhile (\<lambda>c. c = CHR ''-'') s)"

section \<open>Identifier compression\<close>

text \<open>
  The module \<^verbatim>\<open>abbreviations.js\<close> and the SHA-256 digest of \<^verbatim>\<open>crypto\<close> are parameters:
  \<open>commonWords\<close> is the array \<^verbatim>\<open>REVISED_COMMON_WORDS_TO_REMOVE\<close>, \<open>wordAbbreviations\<close>
  the own entries of the object \<^verbatim>\<open>WORD_ABBREVIATIONS\<close> in enumeration order, and
  \<open>sha256hex\<close> maps a string to the hexadecimal digest of its SHA-256 hash.
\<close>

record tables =
  sha256hex :: "string \<Rightarrow> string"
  commonWords :: "string list"
  wordAbbreviations :: "(string \<times> string) list"

definition generateShortHash :: "tables \<Rightarrow> string \<Rightarrow> nat \<Rightarrow> string" where
  "generateShortHash T input len = take len (sha256hex T input)"

text \<open>\<^verbatim>\<open>.replace(/([A-Z]+)/g, " $1")\<close>: a space before every maximal run of capitals.\<close>

fun spaceBeforeUpperRuns :: "bool \<Rightarrow> string \<Rightarrow> string" where
  "spaceBeforeUpperRuns inRun [] = []"
| "spaceBeforeUpperRuns inRun (c # cs) =
     (if isUpperChar c
      then (if inRun then c # spaceBeforeUpperRuns True cs
            else CHR '' '' # c # spaceBeforeUpperRuns True cs)
      else c # spaceBeforeUpperRuns False cs)"

text \<open>\<^verbatim>\<open>.replace(/([A-Z][a-z])/g, " $1")\<close>: matches do not overlap, the scan resumes
  behind the two matched characters.\<close>

fun spaceBeforeCapitalised :: "string \<Rightarrow> string" where
  "spaceBeforeCapitalised (c # d # cs) =
     (if isUpperChar c \<and> isLowerChar d then CHR '' '' # c # d # spaceBeforeCapitalised cs
      else c # spaceBeforeCapitalised (d # cs))"
| "spaceBeforeCapitalised cs = cs"

text \<open>\<^verbatim>\<open>.replace(/([a-z])([0-9])/g, "$1 $2")\<close>.\<close>

fun spaceLowerDigit :: "string \<Rightarrow> string" where
  "spaceLowerDigit (c # d # cs) =
     (if isLowerChar c \<and> isDigitChar d then c # CHR '' '' # d # spaceLowerDigit cs
      else c # spaceLowerDigit (d # cs))"
| "spaceLowerDigit cs = cs"

text \<open>\<^verbatim>\<open>.replace(/([0-9])([A-Za-z])/g, "$1 $2")\<close>.\<close>

fun spaceDigitLetter :: "string \<Rightarrow> string" where
  "spaceDigitLetter (c # d # cs) =
     (if isDigitChar c \<and> isLetterChar d then c # CHR '' '' # d # spaceDigitLetter cs
      else c # spaceDigitLetter (d # cs))"
| "spaceDigitLetter cs = cs"

definition splitCombined :: "string \<Rightarrow> string list" where
  "splitCombined input =
     (let underscoreParts = splitOn CHR ''_'' input;
          combinedParts = concat (map (\<lambda>part.
            let spacedPart = spaceDigitLetter (spaceLowerDigit
                  (spaceBeforeCapitalised (spaceBeforeUpperRuns False part)))
            in filter (\<lambda>p. length p > 0) (splitOn CHR '' '' spacedPart)) underscoreParts)
      in filter (\<lambda>p. length p > 0) (map trim combinedParts))"

text \<open>The result of \<^verbatim>\<open>_initialSanitizeAndValidate\<close>.\<close>

record sanitized =
  currentName :: string
  originalWasLong :: bool
  errorName :: "string option"

definition replaceNonWord :: "string \<Rightarrow> string" where
  "replaceNonWord s =
     map (\<lambda>c. if isLetterChar c \<or> isDigitChar c \<or> c = CHR ''_'' then c else CHR ''-'') s"

definition initialSanitizeAndValidate :: "tables \<Rightarrow> string \<Rightarrow> int \<Rightarrow> sanitized" where
  "initialSanitizeAndValidate T originalId maxLength =
     (if originalId = [] \<or> length (trim originalId) = 0
      then \<lparr>currentName = [], originalWasLong = False, errorName = Some ''unnamed-tool''\<rparr>
      else
        let wasLong = (int (length originalId) > maxLength);
            name = trimHyphens (collapseHyphens (replaceNonWord originalId))
        in if length name = 0
           then \<lparr>currentName = [], originalWasLong = wasLong,
                 errorName = Some (''tool-'' @ generateShortHash T originalId 8)\<rparr>
           else \<lparr>currentName = name, originalWasLong = wasLong, errorName = None\<rparr>)"

text \<open>
  \<^verbatim>\<open>WORD_ABBREVIATIONS[lowerPart]\<close> used as a condition: an own entry whose value is the
  empty string counts as absent, an inherited member counts as present.
\<close>

definition lookupAbbreviation :: "tables \<Rightarrow> string \<Rightarrow> string lookup" where
  "lookupAbbreviation T w =
     (case getProperty (map_of (wordAbbreviations T)) w of
        Own abbr \<Rightarrow> (if abbr = [] then Absent else Own abbr)
      | Inherited \<Rightarrow> Inherited
      | Absent \<Rightarrow> Absent)"

definition capitalise :: "string \<Rightarrow> string" where
  "capitalise abbr = toUpperCase (take 1 abbr) @ toLowerCase (drop 1 abbr)"

text \<open>
  The function mapped over the parts. With an inherited member for \<^verbatim>\<open>abbr\<close> every
  branch raises a \<^verbatim>\<open>TypeError\<close>: \<^verbatim>\<open>abbr[0]\<close> is undefined, so
  \<^verbatim>\<open>abbr[0].toUpperCase()\<close> fails in the first and the third branch;
  \<^verbatim>\<open>abbr.length\<close> is not above 1 for the members with a lower-case name
  (\<^verbatim>\<open>constructor\<close>, \<^verbatim>\<open>__proto__\<close>), so the second branch is not taken; and
  \<^verbatim>\<open>abbr.toLowerCase\<close> is not a function in the last.
\<close>

definition abbreviatePart :: "tables \<Rightarrow> string \<Rightarrow> error + string" where
  "abbreviatePart T part =
     (case lookupAbbreviation T (toLowerCase part) of
        Absent \<Rightarrow> Inr part
      | Own abbr \<Rightarrow>
          if length part > 0 \<and> take 1 part = toUpperCase (take 1 part)
             \<and> drop 1 part = toLowerCase (drop 1 part)
          then Inr (capitalise abbr)
          else if part = toUpperCase part \<and> length part > 1 \<and> length abbr > 1
          then Inr (toUpperCase abbr)
          else if length part > 0 \<and> take 1 part = toUpperCase (take 1 part)
          then Inr (capitalise abbr)
          else Inr (toLowerCase abbr)
      | Inherited \<Rightarrow>
          if length part > 0 \<and> take 1 part = toUpperCase (take 1 part)
          then Inl (TypeError ''toUpperCase'')
          else Inl (TypeError ''toLowerCase''))"

text \<open>\<^verbatim>\<open>parts.map(...)\<close>: the first exception ends the traversal.\<close>

fun abbreviateParts :: "tables \<Rightarrow> string list \<Rightarrow> error + string list" where
  "abbreviateParts T [] = Inr []"
| "abbreviateParts T (part # parts) =
     (case abbreviatePart T part of
        Inl e \<Rightarrow> Inl e
      | Inr p \<Rightarrow>
         (case abbreviateParts T parts of
            Inl e \<Rightarrow> Inl e
          | Inr ps \<Rightarrow> Inr (p # ps)))"

text \<open>The parts that the filter over the common words keeps.\<close>

definition keptParts :: "tables \<Rightarrow> string \<Rightarrow> string list" where
  "keptParts T name =
     filter (\<lambda>part. stripTrailingHyphens (toLowerCase part) \<notin> set (commonWords T))
       (splitCombined name)"

definition performSemanticAbbreviation :: "tables \<Rightarrow> string \<Rightarrow> error + string" where
  "performSemanticAbbreviation T name =
     (case abbreviateParts T (keptParts T name) of
        Inl e \<Rightarrow> Inl e
      | Inr parts \<Rightarrow> Inr (joinWith ''-'' parts))"

definition isVowel :: "char \<Rightarrow> bool" where
  "isVowel c = (c \<in> set ''aeiouAEIOU'')"

definition removeVowels :: "tables \<Rightarrow> string \<Rightarrow> string" where
  "removeVowels T part =
     (let isAbbreviation =
            (\<exists>abbr \<in> set (map snd (wordAbbreviations T)). toLowerCase abbr = toLowerCase part)
      in if length part > 5 \<and> \<not> isAbbreviation
         then (let newPart = take 1 part @ filter (\<lambda>c. \<not> isVowel c) (drop 1 part)
               in if length newPart < length part \<and> length newPart > 1 then newPart else part)
         else part)"

definition applyVowelRemovalIfOverLength :: "tables \<Rightarrow> string \<Rightarrow> int \<Rightarrow> string" where
  "applyVowelRemovalIfOverLength T name maxLength =
     (if int (length name) > maxLength
      then joinWith ''-'' (map (removeVowels T) (splitOn CHR ''-'' name))
      else name)"

definition truncateAndApplyHashIfNeeded ::
  "tables \<Rightarrow> string \<Rightarrow> string \<Rightarrow> bool \<Rightarrow> int \<Rightarrow> string" where
  "truncateAndApplyHashIfNeeded T name originalId wasLong maxLength =
     (let current = trimHyphens (collapseHyphens name);
          needsHash = (wasLong \<or> int (length current) > maxLength)
      in if needsHash
         then (let hash = generateShortHash T originalId 4;
                   maxLengthForBase = maxLength - int (length hash) - 1;
                   base = (if int (length current) > maxLengthForBase
                           then stripTrailingHyphens (substring0 maxLengthForBase current)
                           else current)
               in base @ ''-'' @ hash)
         else current)"

definition replaceNonSlug :: "string \<Rightarrow> string" where
  "replaceNonSlug s =
     map (\<lambda>c. if isLowerChar c \<or> isDigitChar c \<or> c = CHR ''-'' then c else CHR ''-'') s"

definition finalizeNameFormatting :: "tables \<Rightarrow> string \<Rightarrow> string \<Rightarrow> int \<Rightarrow> string" where
  "finalizeNameFormatting T name originalId maxLength =
     (let finalName = trimHyphens (collapseHyphens (replaceNonSlug (toLowerCase name)));
          finalName = (if int (length finalName) > maxLength
                       then stripTrailingHyphens (substring0 maxLength finalName)
                       else finalName)
      in if length finalName = 0 then ''tool-'' @ generateShortHash T originalId 8
         else finalName)"

definition abbreviateOperationId :: "tables \<Rightarrow> string \<Rightarrow> int \<Rightarrow> error + string" where
  "abbreviateOperationId T originalId maxLength =
     (let r = initialSanitizeAndValidate T originalId maxLength
      in case errorName r of
           Some e \<Rightarrow> Inr e
         | None \<Rightarrow>
            (case performSemanticAbbreviation T (currentName r) of
               Inl e \<Rightarrow> Inl e
             | Inr processed \<Rightarrow>
                (let processed = applyVowelRemovalIfOverLength T processed maxLength;
                     processed = truncateAndApplyHashIfNeeded T processed originalId
                                   (originalWasLong r) maxLength
                 in Inr (finalizeNameFormatting T processed originalId maxLength))))"

section \<open>Tool descriptors\<close>

text \<open>
  One entry of \<^verbatim>\<open>inputSchema.properties\<close> or of \<^verbatim>\<open>params\<close>. The fields
  \<^verbatim>\<open>in\<close> and \<^verbatim>\<open>required\<close> are optional: a freshly created object has neither.
\<close>

record paramObject =
  paramType :: string
  paramDescription :: string
  paramIn :: "string option"
  paramRequired :: "bool option"

text \<open>
  \<^verbatim>\<open>ExtendedTool\<close>. The field \<open>properties\<close> is \<^verbatim>\<open>inputSchema.properties\<close>
  and \<open>httpMethod\<close> is \<^verbatim>\<open>method\<close>
  (\<^verbatim>\<open>inputSchema.type\<close> is always \<^verbatim>\<open>"object"\<close>). The type \<open>'p\<close> is what the two
  dictionaries hold: parameter objects themselves where a tool is only read, addresses
  of parameter objects where it is built.
\<close>

record 'p ExtendedTool =
  name :: string
  description :: string
  properties :: "(string \<rightharpoonup> 'p) option"
  url :: string
  path :: string
  headers :: "(string \<times> string) list option"
  httpMethod :: string
  params :: "(string \<rightharpoonup> 'p) option"

section \<open>Request dispatch\<close>

text \<open>
  Caller-supplied values. Numbers are the integral ones that print in plain decimal
  notation (magnitude below \<open>10^21\<close>).
\<close>

datatype jsval = Undefined | Null | Boolean bool | Num int | Str string | Arr "jsval list"

definition digitChar :: "nat \<Rightarrow> char" where
  "digitChar n = char_of (48 + n)"

fun showNat :: "nat \<Rightarrow> string" where
  "showNat n = (if n < 10 then [digitChar n] else showNat (n div 10) @ [digitChar (n mod 10)])"

declare showNat.simps [simp del]

definition showInt :: "int \<Rightarrow> string" where
  "showInt i = (if i < 0 then CHR ''-'' # showNat (nat (- i)) else showNat (nat i))"

text \<open>
  \<^verbatim>\<open>String(value)\<close>; an array prints as \<^verbatim>\<open>value.join(",")\<close>, in which
  \<^verbatim>\<open>undefined\<close> and \<^verbatim>\<open>null\<close> elements print as the empty string.
\<close>

fun jsToString :: "jsval \<Rightarrow> string" where
  "jsToString Undefined = ''undefined''"
| "jsToString Null = ''null''"
| "jsToString (Boolean b) = (if b then ''true'' else ''false'')"
| "jsToString (Num i) = showInt i"
| "jsToString (Str s) = s"
| "jsToString (Arr vs) =
     joinWith '','' (map (\<lambda>v. if v = Undefined \<or> v = Null then [] else jsToString v) vs)"

definition joinArray :: "jsval list \<Rightarrow> string" where
  "joinArray vs = jsToString (Arr vs)"

text \<open>
  \<^verbatim>\<open>encodeURIComponent\<close>: the unreserved characters stay, every other character is
  replaced by the percent-escapes of its UTF-8 bytes.
\<close>

definition isUnreserved :: "char \<Rightarrow> bool" where
  "isUnreserved c = (isLetterChar c \<or> isDigitChar c \<or> c \<in> set ''-_.!~*'' \<or> c \<in> set [CHR 0x27, CHR ''('', CHR '')''])"

definition hexDigitUpper :: "nat \<Rightarrow> char" where
  "hexDigitUpper n = (if n < 10 then char_of (48 + n) else char_of (55 + n))"

definition percentByte :: "nat \<Rightarrow> string" where
  "percentByte b = [CHR ''%'', hexDigitUpper (b div 16), hexDigitUpper (b mod 16)]"

definition encodeChar :: "char \<Rightarrow> string" where
  "encodeChar c =
     (let n = (of_char c :: nat)
      in if isUnreserved c then [c]
         else if n < 128 then percentByte n
         else percentByte (192 + n div 64) @ percentByte (128 + n mod 64))"

definition encodeURIComponent :: "string \<Rightarrow> string" where
  "encodeURIComponent s = concat (map encodeChar s)"

text \<open>
  \<^verbatim>\<open>s.replace(pattern, replacement)\<close> with a string pattern: the first occurrence only.
  The replacement is inserted as it is; \<^verbatim>\<open>encodeURIComponent\<close> escapes the dollar sign,
  so no replacement pattern can occur in it.
\<close>

fun replaceFirst :: "string \<Rightarrow> string \<Rightarrow> string \<Rightarrow> string" where
  "replaceFirst pat rep [] = (if pat = [] then rep else [])"
| "replaceFirst pat rep (c # cs) =
     (if take (length pat) (c # cs) = pat then rep @ drop (length pat) (c # cs)
      else c # replaceFirst pat rep cs)"

text \<open>The request configuration handed to the HTTP client.\<close>

record requestConfig =
  cfgMethod :: string
  cfgBaseURL :: string
  cfgUrl :: string
  cfgHeaders :: "(string \<times> string) list option"
  cfgParams :: "(string \<rightharpoonup> jsval) option"

text \<open>
  \<^verbatim>\<open>processQueryParams\<close>: every own entry is assigned to a fresh object, an array
  as its comma-joined string. The assignment under the key \<^verbatim>\<open>__proto__\<close> leaves no
  entry.
\<close>

definition processQueryParams :: "(string \<rightharpoonup> jsval) \<Rightarrow> (string \<rightharpoonup> jsval)" where
  "processQueryParams ps =
     (\<lambda>key. if key = ''__proto__'' then None
            else (case ps key of
                    None \<Rightarrow> None
                  | Some (Arr vs) \<Rightarrow> Some (Str (joinArray vs))
                  | Some v \<Rightarrow> Some v))"

text \<open>
  \<^verbatim>\<open>tool.inputSchema.properties && tool.inputSchema.properties[paramName]\<close> as a
  condition, on the object literal that the synthesis creates: true for an own entry
  and for an inherited member.
\<close>

definition hasProperty :: "paramObject ExtendedTool \<Rightarrow> string \<Rightarrow> bool" where
  "hasProperty tool paramName =
     (case properties tool of
        None \<Rightarrow> False
      | Some props \<Rightarrow> getProperty props paramName \<noteq> Absent)"

text \<open>\<^verbatim>\<open>tool.params && tool.params[paramName]\<close>, on the object literal likewise.\<close>

definition paramOf :: "paramObject ExtendedTool \<Rightarrow> string \<Rightarrow> paramObject lookup" where
  "paramOf tool paramName =
     (case params tool of None \<Rightarrow> Absent | Some ps \<Rightarrow> getProperty ps paramName)"

text \<open>\<^verbatim>\<open>tool.params[paramName].in\<close>: an inherited member has no such property.\<close>

definition inOf :: "paramObject lookup \<Rightarrow> string option" where
  "inOf found = (case found of Own p \<Rightarrow> paramIn p | Inherited \<Rightarrow> None | Absent \<Rightarrow> None)"

text \<open>
  The body of the loop over \<^verbatim>\<open>Object.entries(params)\<close>. The object literal with the
  computed key \<^verbatim>\<open>[paramName]\<close> has the entry as an own property under every name.
\<close>

definition bindParameter ::
  "paramObject ExtendedTool \<Rightarrow> requestConfig \<Rightarrow> string \<times> jsval \<Rightarrow> error + requestConfig" where
  "bindParameter tool config entry =
     (case entry of (paramName, v) \<Rightarrow>
        if hasProperty tool paramName
        then (if paramOf tool paramName \<noteq> Absent \<and> v = Undefined
              then Inl (Error (''Missing required parameter: '' @ paramName))
              else if paramOf tool paramName \<noteq> Absent
              then (if inOf (paramOf tool paramName) = Some ''query''
                    then Inr (config\<lparr>cfgParams := Some (processQueryParams
                           ((case cfgParams config of None \<Rightarrow> Map.empty | Some q \<Rightarrow> q)
                              (paramName \<mapsto> v)))\<rparr>)
                    else Inr (config\<lparr>cfgUrl := replaceFirst (''{'' @ paramName @ ''}'')
                           (encodeURIComponent (jsToString v)) (cfgUrl config)\<rparr>))
              else Inr config)
        else Inr config)"

fun bindParameters ::
  "paramObject ExtendedTool \<Rightarrow> requestConfig \<Rightarrow> (string \<times> jsval) list \<Rightarrow> error + requestConfig" where
  "bindParameters tool config [] = Inr config"
| "bindParameters tool config (entry # entries) =
     (case bindParameter tool config entry of
        Inl e \<Rightarrow> Inl e
      | Inr config' \<Rightarrow> bindParameters tool config' entries)"

definition initialConfig :: "paramObject ExtendedTool \<Rightarrow> requestConfig" where
  "initialConfig tool =
     \<lparr>cfgMethod = httpMethod tool, cfgBaseURL = url tool, cfgUrl = path tool,
      cfgHeaders = headers tool, cfgParams = None\<rparr>"

text \<open>
  What the HTTP client does with a request: a response body, an Axios error (its message
  and, when a response arrived, the status and the body as the message prints it), or
  any other exception.
\<close>

datatype 'd httpOutcome =
  HttpResponse 'd | HttpAxiosError string "(nat \<times> string) option" | HttpOtherError error

definition fromOutcome :: "'d httpOutcome \<Rightarrow> error + 'd" where
  "fromOutcome out =
     (case out of
        HttpResponse d \<Rightarrow> Inr d
      | HttpAxiosError msg response \<Rightarrow>
          Inl (Error (''API request failed: '' @ msg
                 @ (case response of
                      None \<Rightarrow> []
                    | Some (status, body) \<Rightarrow> '' ('' @ showNat status @ '': '' @ body @ '')'')))
      | HttpOtherError e \<Rightarrow> Inl e)"

text \<open>
  \<^verbatim>\<open>ApiClient.executeApiCall\<close>. The entries of \<open>ps\<close> are \<^verbatim>\<open>Object.entries(params)\<close>. The
  result comes with the requests that were handed to the HTTP client, in order.
\<close>

definition executeApiCall ::
  "(requestConfig \<Rightarrow> 'd httpOutcome) \<Rightarrow> paramObject ExtendedTool \<Rightarrow> (string \<times> jsval) list
   \<Rightarrow> (error + 'd) \<times> requestConfig list" where
  "executeApiCall http tool ps =
     (case bindParameters tool (initialConfig tool) ps of
        Inl e \<Rightarrow> (Inl e, [])
      | Inr config \<Rightarrow> (fromOutcome (http config), [config]))"

section \<open>Tool identifiers\<close>

text \<open>\<^verbatim>\<open>.replace(/^\//, "")\<close>.\<close>

definition stripLeadingSlash :: "string \<Rightarrow> string" where
  "stripLeadingSlash s = (case s of [] \<Rightarrow> [] | c # cs \<Rightarrow> if c = CHR ''/'' then cs else c # cs)"

text \<open>
  \<^verbatim>\<open>.replace(/\{([^}]+)\}/g, "$1")\<close>: an opening brace, followed by at least one
  character other than a closing brace and then by a closing brace, loses both braces.
\<close>

function unwrapBraces :: "string \<Rightarrow> string" where
  "unwrapBraces [] = []"
| "unwrapBraces (c # cs) =
     (if c = CHR ''{'' \<and> takeWhile (\<lambda>d. d \<noteq> CHR ''}'') cs \<noteq> []
         \<and> dropWhile (\<lambda>d. d \<noteq> CHR ''}'') cs \<noteq> []
      then takeWhile (\<lambda>d. d \<noteq> CHR ''}'') cs
           @ unwrapBraces (tl (dropWhile (\<lambda>d. d \<noteq> CHR ''}'') cs))
      else c # unwrapBraces cs)"
  by pat_completeness auto
termination
proof (relation "measure length")
  show "wf (measure length)" by simp
next
  fix c :: char and cs :: string
  have "length (tl (dropWhile (\<lambda>d. d \<noteq> CHR ''}'') cs)) \<le> length cs"
    using length_dropWhile_le [of "\<lambda>d. d \<noteq> CHR ''}''" cs] by simp
  then show "(tl (dropWhile (\<lambda>d. d \<noteq> CHR ''}'') cs), c # cs) \<in> measure length"
    by simp
next
  fix c :: char and cs :: string
  show "(cs, c # cs) \<in> measure length" by simp
qed

text \<open>\<^verbatim>\<open>.replace(/[^a-zA-Z0-9-]/g, "-")\<close>.\<close>

definition replaceNonIdChars :: "string \<Rightarrow> string" where
  "replaceNonIdChars s =
     map (\<lambda>c. if isLetterChar c \<or> isDigitChar c \<or> c = CHR ''-'' then c else CHR ''-'') s"

definition cleanPathOf :: "string \<Rightarrow> string" where
  "cleanPathOf p = unwrapBraces (stripLeadingSlash p)"

definition toolIdOf :: "string \<Rightarrow> string \<Rightarrow> string" where
  "toolIdOf meth p = replaceNonIdChars (toUpperCase meth @ ''-'' @ cleanPathOf p)"

text \<open>\<^verbatim>\<open>ToolsManager.parseToolId\<close>; \<^verbatim>\<open>split\<close> never returns an empty array.\<close>

definition parseToolId :: "string \<Rightarrow> string \<times> string" where
  "parseToolId toolId =
     (case splitOn CHR ''-'' toolId of
        [] \<Rightarrow> ([], ''/'')
      | m # pathParts \<Rightarrow>
          (m, ''/'' @ map (\<lambda>c. if c = CHR ''-'' then CHR ''/'' else c)
                        (joinWith ''/'' pathParts)))"

section \<open>The OpenAPI document\<close>

text \<open>
  A declared parameter: \<open>paramSchema\<close> is \<^verbatim>\<open>param.schema\<close> reduced to its \<^verbatim>\<open>type\<close>;
  \<open>None\<close> is a parameter without schema, \<open>Some None\<close> a schema without type.
\<close>

record parameterObject =
  parameterName :: string
  parameterIn :: string
  parameterRequired :: "bool option"
  parameterDescription :: "string option"
  parameterSchema :: "string option option"

text \<open>
  An element of \<^verbatim>\<open>op.parameters\<close>: \<open>Unrecognised\<close> is an element without a \<^verbatim>\<open>name\<close>
  or without an \<^verbatim>\<open>in\<close> key, such as a reference object.
\<close>

datatype parameterEntry = Unrecognised | Parameter parameterObject

record operationObject =
  operationId :: "string option"
  summary :: "string option"
  operationDescription :: "string option"
  parameters :: "parameterEntry list option"

text \<open>
  \<^verbatim>\<open>Object.entries\<close> of a path item and of \<^verbatim>\<open>paths\<close>; \<open>None\<close> is a value that
  counts as false.
\<close>

type_synonym pathItem = "(string \<times> operationObject option) list"

record document =
  paths :: "(string \<times> pathItem option) list"

record PreparedTool =
  preparedSpecification :: document
  preparedHeaders :: "(string \<times> string) list option"
  baseUrl :: string

section \<open>Tool synthesis\<close>

text \<open>\<^verbatim>\<open>a || b\<close> on optional strings: the empty string counts as false.\<close>

definition orElse :: "string option \<Rightarrow> string \<Rightarrow> string" where
  "orElse a b = (case a of None \<Rightarrow> b | Some s \<Rightarrow> if s = [] then b else s)"

text \<open>The name source of \<^verbatim>\<open>OpenAPISpecsLoader.parseOpenAPISpec\<close>.\<close>

definition nameSourceOf :: "operationObject \<Rightarrow> string \<Rightarrow> string \<Rightarrow> string" where
  "nameSourceOf op meth p = orElse (operationId op) (toUpperCase meth @ '' '' @ p)"

text \<open>The name source of the older \<^verbatim>\<open>OpenAPISpecLoader.parseOpenAPISpec\<close>.\<close>

definition legacyNameSourceOf :: "operationObject \<Rightarrow> string \<Rightarrow> string \<Rightarrow> string" where
  "legacyNameSourceOf op meth p =
     orElse (operationId op) (orElse (summary op) (toUpperCase meth @ '' '' @ p))"

definition httpMethods :: "string list" where
  "httpMethods = [''get'', ''post'', ''put'', ''patch'', ''delete'', ''options'', ''head'']"

text \<open>
  Parameter objects live in a store, a list indexed by address, so that the two
  dictionaries of a tool can hold the same object.
\<close>

type_synonym store = "paramObject list"

text \<open>
  The body of the loop over \<^verbatim>\<open>op.parameters\<close>: the new object is created with
  \<^verbatim>\<open>type\<close> and \<^verbatim>\<open>description\<close>, entered in \<^verbatim>\<open>inputSchema.properties\<close>, given its
  \<^verbatim>\<open>in\<close> and \<^verbatim>\<open>required\<close> fields, and entered in \<^verbatim>\<open>params\<close>. Reading the type of
  a missing schema raises a \<^verbatim>\<open>TypeError\<close>.
\<close>

definition addParameter ::
  "parameterEntry \<Rightarrow> nat ExtendedTool \<times> store \<Rightarrow> error + nat ExtendedTool \<times> store" where
  "addParameter entry ts =
     (case ts of (tool, st) \<Rightarrow>
      case entry of
        Unrecognised \<Rightarrow> Inr (tool, st)
      | Parameter param \<Rightarrow>
         (case properties tool of
            None \<Rightarrow> Inr (tool, st)
          | Some props \<Rightarrow>
             (case parameterSchema param of
                None \<Rightarrow> Inl (TypeError ''type'')
              | Some schemaType \<Rightarrow>
                  let a = length st;
                      paramObject = \<lparr>paramType = orElse schemaType ''string'',
                        paramDescription = orElse (parameterDescription param)
                          (parameterName param @ '' parameter''),
                        paramIn = None, paramRequired = None\<rparr>;
                      st = st @ [paramObject];
                      tool = tool\<lparr>properties := Some (setProperty props (parameterName param) a)\<rparr>;
                      st = st[a := (st ! a)\<lparr>paramIn :=
                        Some (orElse (Some (parameterIn param)) ''query'')\<rparr>];
                      st = st[a := (st ! a)\<lparr>paramRequired :=
                        Some (case parameterRequired param of None \<Rightarrow> False | Some r \<Rightarrow> r)\<rparr>];
                      ps = (case params tool of None \<Rightarrow> Map.empty | Some ps \<Rightarrow> ps)
                  in Inr (tool\<lparr>params := Some (setProperty ps (parameterName param) a)\<rparr>, st))))"

fun addParameters ::
  "parameterEntry list \<Rightarrow> nat ExtendedTool \<times> store \<Rightarrow> error + nat ExtendedTool \<times> store" where
  "addParameters [] ts = Inr ts"
| "addParameters (entry # entries) ts =
     (case addParameter entry ts of
        Inl e \<Rightarrow> Inl e
      | Inr ts' \<Rightarrow> addParameters entries ts')"

text \<open>\<^verbatim>\<open>Map.prototype.set\<close>: a known key keeps its place, a new key goes last.\<close>

fun mapSet :: "'k \<Rightarrow> 'v \<Rightarrow> ('k \<times> 'v) list \<Rightarrow> ('k \<times> 'v) list" where
  "mapSet k v [] = [(k, v)]"
| "mapSet k v ((k', v') # kvs) = (if k = k' then (k, v) # kvs else (k', v') # mapSet k v kvs)"

text \<open>The state of the synthesis: the tools so far and the store.\<close>

type_synonym synthesis = "(string \<times> nat ExtendedTool) list \<times> store"

text \<open>The body of the loop over the entries of one path item.\<close>

definition addOperation ::
  "tables \<Rightarrow> string \<Rightarrow> PreparedTool \<Rightarrow> string \<Rightarrow> string \<times> operationObject option
   \<Rightarrow> synthesis \<Rightarrow> error + synthesis" where
  "addOperation T providerName preparedTool p entry syn =
     (case entry of (meth, operation) \<Rightarrow>
      case syn of (tools, st) \<Rightarrow>
      case operation of
        None \<Rightarrow> Inr syn
      | Some op \<Rightarrow>
          if meth = ''parameters'' then Inr syn
          else
            let formattedMethod = toLowerCase meth
            in if formattedMethod \<notin> set httpMethods then Inr syn
               else
                 let toolId = toolIdOf meth p;
                     nameSource = nameSourceOf op meth p
                 in case abbreviateOperationId T nameSource 64 of
                      Inl e \<Rightarrow> Inl e
                    | Inr shortName \<Rightarrow>
                       (let tool = \<lparr>name = providerName @ ''-'' @ shortName,
                              description = orElse (operationDescription op)
                                (''Make a '' @ toUpperCase meth @ '' request to '' @ p),
                              properties = Some Map.empty,
                              url = baseUrl preparedTool,
                              path = p,
                              headers = preparedHeaders preparedTool,
                              httpMethod = formattedMethod,
                              params = Some Map.empty\<rparr>
                        in case (case parameters op of
                                   None \<Rightarrow> Inr (tool, st)
                                 | Some entries \<Rightarrow> addParameters entries (tool, st)) of
                             Inl e \<Rightarrow> Inl e
                           | Inr (tool', st') \<Rightarrow> Inr (mapSet toolId tool' tools, st')))"

fun addOperations ::
  "tables \<Rightarrow> string \<Rightarrow> PreparedTool \<Rightarrow> string \<Rightarrow> (string \<times> operationObject option) list
   \<Rightarrow> synthesis \<Rightarrow> error + synthesis" where
  "addOperations T providerName preparedTool p [] syn = Inr syn"
| "addOperations T providerName preparedTool p (entry # entries) syn =
     (case addOperation T providerName preparedTool p entry syn of
        Inl e \<Rightarrow> Inl e
      | Inr syn' \<Rightarrow> addOperations T providerName preparedTool p entries syn')"

fun addPaths ::
  "tables \<Rightarrow> string \<Rightarrow> PreparedTool \<Rightarrow> (string \<times> pathItem option) list
   \<Rightarrow> synthesis \<Rightarrow> error + synthesis" where
  "addPaths T providerName preparedTool [] syn = Inr syn"
| "addPaths T providerName preparedTool ((p, item) # rest) syn =
     (case item of
        None \<Rightarrow> addPaths T providerName preparedTool rest syn
      | Some pathItem \<Rightarrow>
         (case addOperations T providerName preparedTool p pathItem syn of
            Inl e \<Rightarrow> Inl e
          | Inr syn' \<Rightarrow> addPaths T providerName preparedTool rest syn'))"

text \<open>
  \<^verbatim>\<open>OpenAPISpecsLoader.parseOpenAPISpec\<close>: the tools of one provider, and the store
  grown by their parameter objects.
\<close>

definition parseOpenAPISpec ::
  "tables \<Rightarrow> string \<Rightarrow> PreparedTool \<Rightarrow> store \<Rightarrow> error + synthesis" where
  "parseOpenAPISpec T providerName preparedTool st =
     addPaths T providerName preparedTool (paths (preparedSpecification preparedTool)) ([], st)"

section \<open>Loading provider directories\<close>

text \<open>
  \<^verbatim>\<open>config.json\<close> of a provider directory: unreadable or not JSON (with the message of
  the exception), or parsed, with its \<^verbatim>\<open>baseUrl\<close> and \<^verbatim>\<open>headers\<close> if any.
\<close>

record providerConfig =
  configBaseUrl :: "string option"
  configHeaders :: "(string \<times> string) list option"

datatype configFile = ConfigUnreadable string | ConfigParsed providerConfig

text \<open>
  One of \<^verbatim>\<open>specification.json\<close>, \<^verbatim>\<open>.yaml\<close>, \<^verbatim>\<open>.yml\<close>: reading or parsing it
  fails, or yields a value (\<open>None\<close> when that value counts as false).
\<close>

datatype specFile = SpecUnavailable | SpecParsed "document option"

record providerDir =
  dirName :: string
  configJson :: configFile
  specificationFiles :: "specFile list"

text \<open>What \<^verbatim>\<open>stat\<close> and \<^verbatim>\<open>readdir\<close> find at the path: the sub-directories, in order.\<close>

datatype specsDir = StatFails string | NotADirectory | Directory "providerDir list"

text \<open>The loop over the three formats: the first file that parses decides.\<close>

fun firstSpecification :: "specFile list \<Rightarrow> document option" where
  "firstSpecification [] = None"
| "firstSpecification (SpecUnavailable # fs) = firstSpecification fs"
| "firstSpecification (SpecParsed d # fs) = d"

text \<open>The \<^verbatim>\<open>try\<close> block around \<^verbatim>\<open>config.json\<close>, with its \<^verbatim>\<open>catch\<close>.\<close>

definition readConfig :: "providerDir \<Rightarrow> error + string \<times> (string \<times> string) list option" where
  "readConfig dir =
     (case (case configJson dir of
              ConfigUnreadable msg \<Rightarrow> Inl msg
            | ConfigParsed config \<Rightarrow>
                (case configBaseUrl config of
                   None \<Rightarrow> Inl (''No baseUrl provided in config.json for '' @ dirName dir)
                 | Some b \<Rightarrow>
                     if b = [] then Inl (''No baseUrl provided in config.json for '' @ dirName dir)
                     else Inr (b, configHeaders config))) of
        Inl msg \<Rightarrow> Inl (Error (''Failed to read config.json for '' @ dirName dir @ '': '' @ msg))
      | Inr r \<Rightarrow> Inr r)"

fun loadProviders ::
  "providerDir list \<Rightarrow> (string \<times> PreparedTool) list \<Rightarrow> error + (string \<times> PreparedTool) list" where
  "loadProviders [] specifications = Inr specifications"
| "loadProviders (subdir # subdirs) specifications =
     (case readConfig subdir of
        Inl e \<Rightarrow> Inl e
      | Inr (b, h) \<Rightarrow>
         (case firstSpecification (specificationFiles subdir) of
            None \<Rightarrow> loadProviders subdirs specifications
          | Some d \<Rightarrow>
              loadProviders subdirs
                (mapSet (dirName subdir)
                   \<lparr>preparedSpecification = d, preparedHeaders = h, baseUrl = b\<rparr> specifications)))"

definition errorMessage :: "error \<Rightarrow> string" where
  "errorMessage e = (case e of Error msg \<Rightarrow> msg | TypeError msg \<Rightarrow> msg)"

text \<open>\<^verbatim>\<open>OpenAPISpecsLoader.loadOpenAPISpecs\<close>, with its outer \<^verbatim>\<open>catch\<close>.\<close>

definition loadOpenAPISpecs :: "string \<Rightarrow> specsDir \<Rightarrow> error + (string \<times> PreparedTool) list" where
  "loadOpenAPISpecs specsDirPath fs =
     (case (case fs of
              StatFails msg \<Rightarrow> Inl (Error msg)
            | NotADirectory \<Rightarrow> Inl (Error (specsDirPath @ '' is not a directory''))
            | Directory subdirs \<Rightarrow>
                if length subdirs = 0
                then Inl (Error (''No provider directories found in '' @ specsDirPath))
                else (case loadProviders subdirs [] of
                        Inl e \<Rightarrow> Inl e
                      | Inr specifications \<Rightarrow>
                          if length specifications = 0
                          then Inl (Error
                            ''No valid OpenAPI specifications found in provider directories'')
                          else Inr specifications)) of
        Inl e \<Rightarrow> Inl (Error (''Failed to load OpenAPI specifications: '' @ errorMessage e))
      | Inr specifications \<Rightarrow> Inr specifications)"

text \<open>The loop of \<^verbatim>\<open>ToolsManager.initialize\<close> over the loaded providers.\<close>

fun registerProviders ::
  "tables \<Rightarrow> (string \<times> PreparedTool) list \<Rightarrow> synthesis \<Rightarrow> error + synthesis" where
  "registerProviders T [] reg = Inr reg"
| "registerProviders T ((providerName, preparedTool) # rest) reg =
     (case reg of (tools, st) \<Rightarrow>
      case parseOpenAPISpec T providerName preparedTool st of
        Inl e \<Rightarrow> Inl e
      | Inr (parsedTools, st') \<Rightarrow>
          registerProviders T rest (fold (\<lambda>(toolId, tool). mapSet toolId tool) parsedTools tools, st'))"

text \<open>\<^verbatim>\<open>ToolsManager.initialize\<close>: the registry, or the exception that ends it.\<close>

definition initialize :: "tables \<Rightarrow> string \<Rightarrow> specsDir \<Rightarrow> error + synthesis" where
  "initialize T specsDirectory fs =
     (case loadOpenAPISpecs specsDirectory fs of
        Inl e \<Rightarrow> Inl e
      | Inr preparedTools \<Rightarrow> registerProviders T preparedTools ([], []))"

section \<open>Example inputs\<close>

text \<open>A small instance of the tables, with a constant standing in for the digest.\<close>

definition exampleTables :: tables where
  "exampleTables =
     \<lparr>sha256hex = (\<lambda>s. ''9f86d081884c7d659a2feaa0c55ad015a3bf4f1b2b0b822cd15d6c15b0f00a08''),
      commonWords = [''get'', ''the'', ''api''],
      wordAbbreviations = [(''identifier'', ''id''), (''configuration'', ''config'')]\<rparr>"

text \<open>
  A tool with the path parameter \<open>id\<close> (required) and the query parameter \<open>limit\<close>
  (optional).
\<close>

definition idParam :: paramObject where
  "idParam = \<lparr>paramType = ''string'', paramDescription = ''id parameter'',
     paramIn = Some ''path'', paramRequired = Some True\<rparr>"

definition limitParam :: paramObject where
  "limitParam = \<lparr>paramType = ''integer'', paramDescription = ''limit parameter'',
     paramIn = Some ''query'', paramRequired = Some False\<rparr>"

definition userTool :: "paramObject ExtendedTool" where
  "userTool =
     \<lparr>name = ''example-user-id'', description = ''Make a GET request to /users/{id}'',
      properties = Some [''id'' \<mapsto> idParam, ''limit'' \<mapsto> limitParam],
      url = ''https://api.example.com'', path = ''/users/{id}'', headers = None,
      httpMethod = ''get'',
      params = Some [''id'' \<mapsto> idParam, ''limit'' \<mapsto> limitParam]\<rparr>"

text \<open>A transport that answers every request with the URL it was asked for.\<close>

definition echo :: "requestConfig \<Rightarrow> string httpOutcome" where
  "echo config = HttpResponse (cfgUrl config)"

text \<open>The document that \<open>userTool\<close> is synthesized from, and its provider.\<close>

definition userOperation :: operationObject where
  "userOperation =
     \<lparr>operationId = Some ''getUserIdentifier'', summary = None, operationDescription = None,
      parameters = Some
        [Parameter \<lparr>parameterName = ''id'', parameterIn = ''path'',
           parameterRequired = Some True, parameterDescription = None,
           parameterSchema = Some (Some ''string'')\<rparr>,
         Unrecognised,
         Parameter \<lparr>parameterName = ''limit'', parameterIn = ''query'',
           parameterRequired = None, parameterDescription = None,
           parameterSchema = Some (Some ''integer'')\<rparr>]\<rparr>"

definition userDocument :: document where
  "userDocument = \<lparr>paths = [(''/users/{id}'', Some [(''get'', Some userOperation)])]\<rparr>"

definition userPrepared :: PreparedTool where
  "userPrepared = \<lparr>preparedSpecification = userDocument, preparedHeaders = None,
     baseUrl = ''https://api.example.com''\<rparr>"

definition userSynthTool :: "nat ExtendedTool" where
  "userSynthTool =
     \<lparr>name = ''example-user-id'', description = ''Make a GET request to /users/{id}'',
      properties = Some [''id'' \<mapsto> 0, ''limit'' \<mapsto> 1],
      url = ''https://api.example.com'', path = ''/users/{id}'', headers = None,
      httpMethod = ''get'',
      params = Some [''id'' \<mapsto> 0, ''limit'' \<mapsto> 1]\<rparr>"

text \<open>An operation without identifier but with a summary.\<close>

definition listUsersOperation :: operationObject where
  "listUsersOperation =
     \<lparr>operationId = None, summary = Some ''List users'', operationDescription = None,
      parameters = None\<rparr>"

text \<open>A provider directory in order, and one whose \<^verbatim>\<open>config.json\<close> has no base URL.\<close>

definition exampleProvider :: providerDir where
  "exampleProvider =
     \<lparr>dirName = ''example'',
      configJson = ConfigParsed
        \<lparr>configBaseUrl = Some ''https://api.example.com'', configHeaders = None\<rparr>,
      specificationFiles = [SpecParsed (Some userDocument), SpecUnavailable, SpecUnavailable]\<rparr>"

definition brokenProvider :: providerDir where
  "brokenProvider =
     \<lparr>dirName = ''broken'',
      configJson = ConfigParsed \<lparr>configBaseUrl = None, configHeaders = None\<rparr>,
      specificationFiles = [SpecParsed (Some userDocument), SpecUnavailable, SpecUnavailable]\<rparr>"

section \<open>Predicates of the properties\<close>

text \<open>
  The regular expression \<^verbatim>\<open>^[a-z0-9]+(-[a-z0-9]+)*$\<close> as its automaton: the flag says
  whether the character just read was a letter or a digit, which is where a hyphen or
  the end of the string is allowed.
\<close>

definition isLowerAlnum :: "char \<Rightarrow> bool" where
  "isLowerAlnum c = (isLowerChar c \<or> isDigitChar c)"

fun slugAcc :: "bool \<Rightarrow> string \<Rightarrow> bool" where
  "slugAcc afterWord [] = afterWord"
| "slugAcc afterWord (c # cs) =
     (if isLowerAlnum c then slugAcc True cs
      else c = CHR ''-'' \<and> afterWord \<and> slugAcc False cs)"

definition matchesSlug :: "string \<Rightarrow> bool" where
  "matchesSlug s = slugAcc False s"

definition isHexChar :: "char \<Rightarrow> bool" where
  "isHexChar c = (c \<in> set ''0123456789abcdef'')"

text \<open>The fallback \<^verbatim>\<open>tool-\<close> followed by eight hexadecimal digits.\<close>

definition isHashFallback :: "string \<Rightarrow> bool" where
  "isHashFallback s = (length s = 13 \<and> take 5 s = ''tool-'' \<and> list_all isHexChar (drop 5 s))"

text \<open>What a SHA-256 digest in hexadecimal is: 64 lower-case hexadecimal digits.\<close>

definition hexDigest :: "(string \<Rightarrow> string) \<Rightarrow> bool" where
  "hexDigest h = (\<forall>s. length (h s) = 64 \<and> list_all isHexChar (h s))"

text \<open>
  An entry of the caller's map that the dispatcher's check rejects: its name is found in
  both dictionaries of the tool and its value is \<^verbatim>\<open>undefined\<close>.
\<close>

definition declaredUndefined :: "paramObject ExtendedTool \<Rightarrow> string \<times> jsval \<Rightarrow> bool" where
  "declaredUndefined tool entry =
     (hasProperty tool (fst entry) \<and> paramOf tool (fst entry) \<noteq> Absent \<and> snd entry = Undefined)"

text \<open>
  A provider without base URL: \<^verbatim>\<open>config.json\<close> cannot be read, or it has no
  \<^verbatim>\<open>baseUrl\<close> or an empty one.
\<close>

definition baseUrlAbsent :: "providerDir \<Rightarrow> bool" where
  "baseUrlAbsent dir =
     (case configJson dir of
        ConfigUnreadable msg \<Rightarrow> True
      | ConfigParsed config \<Rightarrow> configBaseUrl config = None \<or> configBaseUrl config = Some [])"

text \<open>The message of the exception that the \<^verbatim>\<open>try\<close> block around \<^verbatim>\<open>config.json\<close> catches.\<close>

definition configFailure :: "providerDir \<Rightarrow> string" where
  "configFailure dir =
     (case configJson dir of
        ConfigUnreadable msg \<Rightarrow> msg
      | ConfigParsed config \<Rightarrow> ''No baseUrl provided in config.json for '' @ dirName dir)"

subsection \<open>Invariants used in the proofs\<close>

fun noDoubleHyphen :: "string \<Rightarrow> bool" where
  "noDoubleHyphen (c # d # cs) = ((c \<noteq> CHR ''-'' \<or> d \<noteq> CHR ''-'') \<and> noDoubleHyphen (d # cs))"
| "noDoubleHyphen cs = True"

definition slugChars :: "string \<Rightarrow> bool" where
  "slugChars s = (\<forall>c \<in> set s. isLowerAlnum c \<or> c = CHR ''-'')"

definition tidy :: "string \<Rightarrow> bool" where
  "tidy u = (slugChars u \<and> noDoubleHyphen u
     \<and> (u \<noteq> [] \<longrightarrow> hd u \<noteq> CHR ''-'' \<and> last u \<noteq> CHR ''-''))"

definition complete :: "paramObject \<Rightarrow> bool" where
  "complete obj = (paramIn obj \<noteq> None \<and> paramRequired obj \<noteq> None)"

text \<open>
  Both dictionaries of a tool are the same map from names to addresses, and every
  address is one of a parameter object with \<^verbatim>\<open>in\<close> and \<^verbatim>\<open>required\<close>.
\<close>

definition sharedParams :: "store \<Rightarrow> nat ExtendedTool \<Rightarrow> bool" where
  "sharedParams st tool =
     (\<exists>m. properties tool = Some m \<and> params tool = Some m
        \<and> (\<forall>n a. m n = Some a \<longrightarrow> a < length st \<and> complete (st ! a)))"

definition extends :: "store \<Rightarrow> store \<Rightarrow> bool" where
  "extends st st' = (length st \<le> length st' \<and> (\<forall>a < length st. st' ! a = st ! a))"

definition allShared :: "synthesis \<Rightarrow> bool" where
  "allShared syn = (\<forall>(toolId, tool) \<in> set (fst syn). sharedParams (snd syn) tool)"

section \<open>Properties of the identifier compression\<close>

lemma length_stripTrailingHyphens: "length (stripTrailingHyphens s) \<le> length s"
  by (simp add: stripTrailingHyphens_def) (metis length_dropWhile_le length_rev)

lemma length_generateShortHash: "length (generateShortHash T s n) \<le> n"
  by (simp add: generateShortHash_def)

lemma length_finalizeNameFormatting:
  "int (length (finalizeNameFormatting T nm originalId maxLength)) \<le> max maxLength 13"
proof -
  have h: "int (length (''tool-'' @ generateShortHash T originalId 8)) \<le> 13"
    using length_generateShortHash [of T originalId 8] by simp
  have t: "int (length (stripTrailingHyphens (substring0 maxLength s))) \<le> max maxLength 0" for s
    using length_stripTrailingHyphens [of "substring0 maxLength s"]
    by (simp add: substring0_def) linarith
  show ?thesis
    unfolding finalizeNameFormatting_def Let_def
    using h t by (smt (verit) max.cobounded1 max.coboundedI2)
qed

lemma noDoubleHyphen_tl: "noDoubleHyphen (c # cs) \<Longrightarrow> noDoubleHyphen cs"
  by (cases cs) simp_all

lemma collapseHyphens_Cons: "\<exists>r. collapseHyphens (d # cs) = d # r"
  by (induction cs arbitrary: d) auto

lemma noDoubleHyphen_collapseHyphens: "noDoubleHyphen (collapseHyphens s)"
proof (induction s rule: collapseHyphens.induct)
  case (1 c d cs)
  obtain r where r: "collapseHyphens (d # cs) = d # r"
    using collapseHyphens_Cons by blast
  with 1 show ?case by auto
qed simp_all

lemma set_collapseHyphens: "set (collapseHyphens s) \<subseteq> set s"
  by (induction s rule: collapseHyphens.induct) auto

lemma noDoubleHyphen_dropWhile: "noDoubleHyphen s \<Longrightarrow> noDoubleHyphen (dropWhile P s)"
  by (induction s) (auto dest: noDoubleHyphen_tl)

lemma noDoubleHyphen_append: "noDoubleHyphen (xs @ ys) \<Longrightarrow> noDoubleHyphen xs"
  by (induction xs rule: noDoubleHyphen.induct) auto

lemma noDoubleHyphen_take: "noDoubleHyphen s \<Longrightarrow> noDoubleHyphen (take n s)"
  by (metis append_take_drop_id noDoubleHyphen_append)

lemma stripTrailingHyphens_prefix: "\<exists>k. stripTrailingHyphens s = take k s"
proof -
  have "s = stripTrailingHyphens s @ rev (takeWhile (\<lambda>c. c = CHR ''-'') (rev s))"
    unfolding stripTrailingHyphens_def
    by (metis rev_append rev_rev_ident takeWhile_dropWhile_id)
  then show ?thesis by (metis append_eq_conv_conj)
qed

lemma slugAcc_intro:
  "slugChars u \<Longrightarrow> noDoubleHyphen u \<Longrightarrow> (u = [] \<longrightarrow> afterWord)
   \<Longrightarrow> (u \<noteq> [] \<longrightarrow> last u \<noteq> CHR ''-'' \<and> (hd u = CHR ''-'' \<longrightarrow> afterWord))
   \<Longrightarrow> slugAcc afterWord u"
proof (induction u arbitrary: afterWord)
  case Nil
  then show ?case by simp
next
  case (Cons c cs)
  show ?case
  proof (cases "isLowerAlnum c")
    case True
    have "slugAcc True cs"
      using Cons.prems by (intro Cons.IH) (auto simp: slugChars_def dest: noDoubleHyphen_tl)
    with True show ?thesis by simp
  next
    case False
    with Cons.prems have c: "c = CHR ''-''" and aw: afterWord
      by (auto simp: slugChars_def)
    from Cons.prems c have ne: "cs \<noteq> []" by auto
    have "slugAcc False cs"
      using Cons.prems c ne
      by (intro Cons.IH) (auto simp: slugChars_def neq_Nil_conv dest: noDoubleHyphen_tl)
    with False c aw show ?thesis by simp
  qed
qed


lemma last_stripTrailingHyphens:
  "stripTrailingHyphens s \<noteq> [] \<Longrightarrow> last (stripTrailingHyphens s) \<noteq> CHR ''-''"
  unfolding stripTrailingHyphens_def
  using hd_dropWhile [of "\<lambda>c. c = CHR ''-''" "rev s"] by (simp add: last_rev)

lemma hd_stripTrailingHyphens:
  "stripTrailingHyphens s \<noteq> [] \<Longrightarrow> hd (stripTrailingHyphens s) = hd s"
proof -
  assume ne: "stripTrailingHyphens s \<noteq> []"
  obtain k where k: "stripTrailingHyphens s = take k s"
    using stripTrailingHyphens_prefix by blast
  with ne show ?thesis by (cases s; cases k) auto
qed

lemma set_stripTrailingHyphens: "set (stripTrailingHyphens s) \<subseteq> set s"
  unfolding stripTrailingHyphens_def using set_dropWhileD by fastforce

lemma noDoubleHyphen_stripTrailingHyphens:
  "noDoubleHyphen s \<Longrightarrow> noDoubleHyphen (stripTrailingHyphens s)"
  using stripTrailingHyphens_prefix [of s] noDoubleHyphen_take by force

lemma tidy_stripTrailingHyphens:
  assumes "slugChars s" "noDoubleHyphen s" "s \<noteq> [] \<longrightarrow> hd s \<noteq> CHR ''-''"
  shows "tidy (stripTrailingHyphens s)"
proof -
  have "slugChars (stripTrailingHyphens s)"
    using assms(1) set_stripTrailingHyphens [of s] by (auto simp: slugChars_def)
  moreover have "noDoubleHyphen (stripTrailingHyphens s)"
    using assms(2) by (rule noDoubleHyphen_stripTrailingHyphens)
  moreover have "hd (stripTrailingHyphens s) \<noteq> CHR ''-''" if "stripTrailingHyphens s \<noteq> []"
    using that assms(3) hd_stripTrailingHyphens [of s] by (auto simp: stripTrailingHyphens_def)
  ultimately show ?thesis
    using last_stripTrailingHyphens [of s] by (simp add: tidy_def)
qed

lemma tidy_trimHyphens:
  assumes "slugChars s" "noDoubleHyphen s"
  shows "tidy (trimHyphens s)"
  unfolding trimHyphens_def
proof (rule tidy_stripTrailingHyphens)
  show "slugChars (dropWhile (\<lambda>c. c = CHR ''-'') s)"
    using assms(1) by (auto simp: slugChars_def dest: set_dropWhileD)
  show "noDoubleHyphen (dropWhile (\<lambda>c. c = CHR ''-'') s)"
    using assms(2) by (rule noDoubleHyphen_dropWhile)
  show "dropWhile (\<lambda>c. c = CHR ''-'') s \<noteq> [] \<longrightarrow> hd (dropWhile (\<lambda>c. c = CHR ''-'') s) \<noteq> CHR ''-''"
    using hd_dropWhile [of "\<lambda>c. c = CHR ''-''" s] by blast
qed

lemma tidy_truncate:
  assumes "tidy u"
  shows "tidy (stripTrailingHyphens (substring0 n u))"
  unfolding substring0_def
proof (rule tidy_stripTrailingHyphens)
  show "slugChars (take (nat n) u)"
    using assms by (auto simp: tidy_def slugChars_def dest: in_set_takeD)
  show "noDoubleHyphen (take (nat n) u)"
    using assms by (simp add: tidy_def noDoubleHyphen_take)
  show "take (nat n) u \<noteq> [] \<longrightarrow> hd (take (nat n) u) \<noteq> CHR ''-''"
    using assms by (cases u; cases "nat n") (auto simp: tidy_def)
qed

lemma slugChars_replaceNonSlug: "slugChars (replaceNonSlug s)"
  by (auto simp: slugChars_def replaceNonSlug_def isLowerAlnum_def)

lemma tidy_matchesSlug: "tidy u \<Longrightarrow> u \<noteq> [] \<Longrightarrow> matchesSlug u"
  unfolding matchesSlug_def by (rule slugAcc_intro) (auto simp: tidy_def)

lemma finalizeNameFormatting_slug:
  "matchesSlug (finalizeNameFormatting T nm originalId maxLength)
   \<or> finalizeNameFormatting T nm originalId maxLength
       = ''tool-'' @ generateShortHash T originalId 8"
proof -
  define u where "u = trimHyphens (collapseHyphens (replaceNonSlug (toLowerCase nm)))"
  have "slugChars (collapseHyphens (replaceNonSlug (toLowerCase nm)))"
    using slugChars_replaceNonSlug [of "toLowerCase nm"]
      set_collapseHyphens [of "replaceNonSlug (toLowerCase nm)"]
    by (auto simp: slugChars_def)
  then have u: "tidy u"
    unfolding u_def by (rule tidy_trimHyphens) (rule noDoubleHyphen_collapseHyphens)
  then have v: "tidy (stripTrailingHyphens (substring0 maxLength u))"
    by (rule tidy_truncate)
  show ?thesis
    unfolding finalizeNameFormatting_def Let_def u_def [symmetric]
    using u v tidy_matchesSlug by auto
qed

lemma matchesSlug_unnamed: "matchesSlug ''unnamed-tool''"
  by (simp add: matchesSlug_def isLowerAlnum_def isLowerChar_def isDigitChar_def)

lemma abbreviateOperationId_cases:
  "abbreviateOperationId T s m = Inr r \<Longrightarrow>
   r = ''unnamed-tool'' \<or> r = ''tool-'' @ generateShortHash T s 8
   \<or> (\<exists>nm. r = finalizeNameFormatting T nm s m)"
  unfolding abbreviateOperationId_def initialSanitizeAndValidate_def Let_def
  by (auto split: if_splits sum.splits)

lemma finalizeNameFormatting_fallback_or_bounded:
  "finalizeNameFormatting T nm originalId maxLength = ''tool-'' @ generateShortHash T originalId 8
   \<or> int (length (finalizeNameFormatting T nm originalId maxLength)) \<le> maxLength"
proof -
  have t: "stripTrailingHyphens (substring0 maxLength u) = []
           \<or> int (length (stripTrailingHyphens (substring0 maxLength u))) \<le> maxLength" for u
  proof (cases "maxLength \<le> 0")
    case True
    then show ?thesis by (simp add: substring0_def stripTrailingHyphens_def)
  next
    case False
    then show ?thesis
      using length_stripTrailingHyphens [of "substring0 maxLength u"]
      by (simp add: substring0_def) linarith
  qed
  show ?thesis
    unfolding finalizeNameFormatting_def Let_def
    using t [of "trimHyphens (collapseHyphens (replaceNonSlug (toLowerCase nm)))"]
    by auto
qed

lemma hashFallback:
  assumes "hexDigest (sha256hex T)"
  shows "isHashFallback (''tool-'' @ generateShortHash T s 8)"
  using assms by (simp add: hexDigest_def isHashFallback_def generateShortHash_def list_all_iff)
    (meson in_set_takeD)


lemma abbreviatePart_Inl:
  "(\<exists>e. abbreviatePart T part = Inl e) = (lookupAbbreviation T (toLowerCase part) = Inherited)"
  by (auto simp: abbreviatePart_def split: lookup.splits if_splits)

lemma abbreviateParts_Inl:
  "(\<exists>e. abbreviateParts T parts = Inl e)
   = (\<exists>part \<in> set parts. lookupAbbreviation T (toLowerCase part) = Inherited)"
proof (induction parts)
  case Nil
  then show ?case by simp
next
  case (Cons part parts)
  show ?case
  proof (cases "abbreviatePart T part")
    case (Inl e)
    then have "lookupAbbreviation T (toLowerCase part) = Inherited"
      using abbreviatePart_Inl [of T part] by blast
    with Inl show ?thesis by simp
  next
    case (Inr p)
    then have "lookupAbbreviation T (toLowerCase part) \<noteq> Inherited"
      using abbreviatePart_Inl [of T part] by auto
    with Inr Cons.IH show ?thesis by (auto split: sum.splits)
  qed
qed

text \<open>
  When the compression raises an exception: the input passes the first stage, and one of
  the parts kept after the split is, in lower case, the name of an inherited member for
  which the abbreviation table has no entry of its own.
\<close>

lemma abbreviateOperationId_Inl:
  "(\<exists>e. abbreviateOperationId T s m = Inl e)
   = (errorName (initialSanitizeAndValidate T s m) = None
      \<and> (\<exists>part \<in> set (keptParts T (currentName (initialSanitizeAndValidate T s m))).
            lookupAbbreviation T (toLowerCase part) = Inherited))"
proof -
  define nm where "nm = currentName (initialSanitizeAndValidate T s m)"
  have p: "(\<exists>e. performSemanticAbbreviation T nm = Inl e)
        = (\<exists>part \<in> set (keptParts T nm). lookupAbbreviation T (toLowerCase part) = Inherited)"
    using abbreviateParts_Inl [of T "keptParts T nm"]
    by (auto simp: performSemanticAbbreviation_def split: sum.splits)
  show ?thesis
  proof (cases "errorName (initialSanitizeAndValidate T s m)")
    case (Some e)
    then show ?thesis by (simp add: abbreviateOperationId_def Let_def)
  next
    case None
    show ?thesis
    proof (cases "performSemanticAbbreviation T nm")
      case (Inl e)
      with None p show ?thesis
        by (auto simp: abbreviateOperationId_def Let_def nm_def)
    next
      case (Inr processed)
      with p have "\<not> (\<exists>part \<in> set (keptParts T nm).
          lookupAbbreviation T (toLowerCase part) = Inherited)"
        by auto
      with None Inr show ?thesis
        by (auto simp: abbreviateOperationId_def Let_def nm_def)
    qed
  qed
qed

text \<open>
  Whatever the compression returns matches \<^verbatim>\<open>^[a-z0-9]+(-[a-z0-9]+)*$\<close> or is the
  fallback \<^verbatim>\<open>tool-\<close> with eight hexadecimal digits.
\<close>

lemma abbreviateOperationId_returns_slug:
  assumes "hexDigest (sha256hex T)" and "abbreviateOperationId T s maxLength = Inr r"
  shows "matchesSlug r \<or> isHashFallback r"
  using abbreviateOperationId_cases [OF assms(2)] matchesSlug_unnamed
    finalizeNameFormatting_slug [of T _ s maxLength] hashFallback [OF assms(1), of s]
  by metis

lemma abbreviateOperationId_blank:
  "abbreviateOperationId T '''' maxLength = Inr ''unnamed-tool''"
  "abbreviateOperationId T ''   '' maxLength = Inr ''unnamed-tool''"
  by (simp_all add: abbreviateOperationId_def initialSanitizeAndValidate_def trim_def
      isWhiteSpace_def)

text \<open>
  Claim C2, as amended. Whenever \<open>abbreviateOperationId T s maxLength\<close> returns a string,
  that string is one of the two literal fallbacks, \<^verbatim>\<open>unnamed-tool\<close> (12 characters) or
  \<^verbatim>\<open>tool-\<close> with eight characters of the digest (13 characters), or it has at most
  \<open>maxLength\<close> characters. So its length is at most \<open>maxLength\<close> whenever \<open>maxLength\<close> is at
  least 13, as for the default 64.
\<close>

theorem abbreviateOperationId_bound:
  assumes "abbreviateOperationId T s maxLength = Inr r"
  shows "(r = ''unnamed-tool'' \<or> r = ''tool-'' @ generateShortHash T s 8
          \<or> int (length r) \<le> maxLength)
         \<and> int (length r) \<le> max maxLength 13"
proof -
  have h: "int (length (''tool-'' @ generateShortHash T s 8)) \<le> 13"
    using length_generateShortHash [of T s 8] by simp
  from abbreviateOperationId_cases [OF assms]
  consider "r = ''unnamed-tool''" | "r = ''tool-'' @ generateShortHash T s 8"
    | nm where "r = finalizeNameFormatting T nm s maxLength"
    by blast
  then show ?thesis
  proof cases
    case 1
    then show ?thesis by simp
  next
    case 2
    with h show ?thesis by simp
  next
    case 3
    with h finalizeNameFormatting_fallback_or_bounded [of T nm s maxLength]
    show ?thesis by auto
  qed
qed

theorem abbreviateOperationId_bound_witness:
  "abbreviateOperationId exampleTables ''widgets'' 2 = Inr ''9f''
   \<and> int (length ''9f'') \<le> 2
   \<and> abbreviateOperationId exampleTables ''///'' 2 = Inr ''tool-9f86d081''
   \<and> ''tool-9f86d081'' = ''tool-'' @ generateShortHash exampleTables ''///'' 8"
proof -
  have a: "abbreviateOperationId exampleTables ''widgets'' 2 = Inr ''9f''"
    by code_simp
  have b: "abbreviateOperationId exampleTables ''///'' 2 = Inr ''tool-9f86d081''"
    by code_simp
  have c: "''tool-9f86d081'' = ''tool-'' @ generateShortHash exampleTables ''///'' 8"
    by code_simp
  from abbreviateOperationId_bound [OF a] abbreviateOperationId_bound [OF b] a b c
  show ?thesis by simp
qed

text \<open>
  Claim C2 as stated fails: with the positive bound 5 the empty string is compressed to
  \<^verbatim>\<open>unnamed-tool\<close>, which has 12 characters.
\<close>

theorem abbreviateOperationId_bound_counterexample:
  "abbreviateOperationId exampleTables '''' 5 = Inr ''unnamed-tool''
   \<and> \<not> int (length ''unnamed-tool'') \<le> 5"
  by (simp add: abbreviateOperationId_def initialSanitizeAndValidate_def)

text \<open>
  Claim C8 does not hold of the code. The identifier \<^verbatim>\<open>getConstructorById\<close> has the
  part \<^verbatim>\<open>Constructor\<close>; unless the tables list \<^verbatim>\<open>constructor\<close> themselves,
  \<^verbatim>\<open>WORD_ABBREVIATIONS["constructor"]\<close> is the inherited constructor function, and
  \<open>abbreviateOperationId\<close> raises a \<^verbatim>\<open>TypeError\<close> instead of returning a name, for
  every bound.
\<close>

theorem abbreviateOperationId_raises_on_inherited_member:
  assumes "''constructor'' \<notin> set (commonWords T)"
    and "map_of (wordAbbreviations T) ''constructor'' = None"
  shows "\<exists>e. abbreviateOperationId T ''getConstructorById'' maxLength = Inl e"
proof -
  have s: "splitCombined ''getConstructorById'' = [''get'', ''Constructor'', ''By'', ''Id'']"
    by code_simp
  have c: "stripTrailingHyphens (toLowerCase ''Constructor'') = ''constructor''"
    "toLowerCase ''Constructor'' = ''constructor''"
    "stripTrailingHyphens ''constructor'' = ''constructor''"
    by code_simp+
  have n: "trimHyphens (collapseHyphens (replaceNonWord ''getConstructorById''))
           = ''getConstructorById''"
    by code_simp
  have t: "length (trim ''getConstructorById'') \<noteq> 0"
    by code_simp
  have i: "errorName (initialSanitizeAndValidate T ''getConstructorById'' maxLength) = None"
    "currentName (initialSanitizeAndValidate T ''getConstructorById'' maxLength)
     = ''getConstructorById''"
    using t by (simp_all add: initialSanitizeAndValidate_def n Let_def)
  have k: "''Constructor'' \<in> set (keptParts T ''getConstructorById'')"
    unfolding keptParts_def s set_filter using assms(1) by (simp add: c)
  have l: "lookupAbbreviation T (toLowerCase ''Constructor'') = Inherited"
    using assms(2)
    by (simp add: c lookupAbbreviation_def getProperty_def objectPrototypeMembers_def)
  from k l i show ?thesis
    unfolding abbreviateOperationId_Inl by (auto simp only: i)
qed

theorem abbreviateOperationId_raises_on_inherited_member_witness:
  "''constructor'' \<notin> set (commonWords exampleTables)
   \<and> map_of (wordAbbreviations exampleTables) ''constructor'' = None
   \<and> abbreviateOperationId exampleTables ''getConstructorById'' 64
       = Inl (TypeError ''toUpperCase'')"
proof -
  have a: "''constructor'' \<notin> set (commonWords exampleTables)"
    by (simp add: exampleTables_def)
  have b: "map_of (wordAbbreviations exampleTables) ''constructor'' = None"
    by (simp add: exampleTables_def)
  have c: "abbreviateOperationId exampleTables ''getConstructorById'' 64
           = Inl (TypeError ''toUpperCase'')"
    by code_simp
  from abbreviateOperationId_raises_on_inherited_member [OF a b, of 64] a b c
  show ?thesis by blast
qed

section \<open>Properties of the request dispatch\<close>

lemma bindParameter_declaredUndefined:
  "declaredUndefined tool (n, v) \<Longrightarrow>
   bindParameter tool config (n, v) = Inl (Error (''Missing required parameter: '' @ n))"
  by (auto simp: declaredUndefined_def bindParameter_def)

lemma bindParameter_otherwise:
  "\<not> declaredUndefined tool entry \<Longrightarrow> \<exists>config'. bindParameter tool config entry = Inr config'"
  by (cases entry) (auto simp: declaredUndefined_def bindParameter_def)

lemma bindParameters_first_missing:
  "List.find (declaredUndefined tool) ps = Some (n, v) \<Longrightarrow>
   bindParameters tool config ps = Inl (Error (''Missing required parameter: '' @ n))"
proof (induction ps arbitrary: config)
  case Nil
  then show ?case by simp
next
  case (Cons entry ps)
  show ?case
  proof (cases "declaredUndefined tool entry")
    case True
    with Cons.prems have "entry = (n, v)" by simp
    with True show ?thesis by (simp add: bindParameter_declaredUndefined)
  next
    case False
    then obtain config' where "bindParameter tool config entry = Inr config'"
      using bindParameter_otherwise by blast
    moreover from False Cons.prems have "List.find (declaredUndefined tool) ps = Some (n, v)"
      by simp
    ultimately show ?thesis using Cons.IH by simp
  qed
qed

lemma find_declaredUndefined:
  assumes "(n, Undefined) \<in> set ps" and "declaredUndefined tool (n, Undefined)"
  shows "\<exists>k. (k, Undefined) \<in> set ps
           \<and> List.find (declaredUndefined tool) ps = Some (k, Undefined)"
proof -
  from assms obtain e where e: "List.find (declaredUndefined tool) ps = Some e"
    by (cases "List.find (declaredUndefined tool) ps") (auto simp: find_None_iff)
  obtain k v where kv: "e = (k, v)" by (cases e)
  from e have "e \<in> set ps" and "declaredUndefined tool e"
    by (auto simp: find_Some_iff)
  with kv have "(k, Undefined) \<in> set ps" and "v = Undefined"
    by (auto simp: declaredUndefined_def)
  with e kv show ?thesis by auto
qed

lemma userTool_hasProperty: "hasProperty userTool ''id''" "hasProperty userTool ''limit''"
  by (simp_all add: hasProperty_def getProperty_def userTool_def)

lemma userTool_paramOf:
  "paramOf userTool ''id'' = Own idParam" "paramOf userTool ''limit'' = Own limitParam"
  by (simp_all add: paramOf_def getProperty_def userTool_def)

text \<open>
  A name that the two dictionaries only inherit is checked like a declared one: the
  parameters \<^verbatim>\<open>{toString: undefined, limit: undefined}\<close> raise the error for
  \<^verbatim>\<open>toString\<close>.
\<close>

lemma inherited_member_is_checked:
  "executeApiCall echo userTool [(''toString'', Undefined), (''limit'', Undefined)]
   = (Inl (Error ''Missing required parameter: toString''), [])"
  by (simp add: executeApiCall_def bindParameter_def hasProperty_def paramOf_def
      getProperty_def objectPrototypeMembers_def userTool_def)

text \<open>
  Claim C1 does not hold of the code. In \<open>userTool\<close> the parameter \<open>id\<close> is declared with
  \<^verbatim>\<open>required = true\<close>; called with the empty parameter map, \<open>executeApiCall\<close> raises no
  missing-parameter error: it hands one request to the HTTP client, for the path
  \<^verbatim>\<open>/users/{id}\<close> with the placeholder still in it, and returns what the client answers.
\<close>

theorem absent_required_parameter_not_detected:
  "paramOf userTool ''id'' = Own idParam \<and> paramRequired idParam = Some True
   \<and> executeApiCall http userTool []
     = (fromOutcome (http \<lparr>cfgMethod = ''get'', cfgBaseURL = ''https://api.example.com'',
          cfgUrl = ''/users/{id}'', cfgHeaders = None, cfgParams = None\<rparr>),
        [\<lparr>cfgMethod = ''get'', cfgBaseURL = ''https://api.example.com'',
          cfgUrl = ''/users/{id}'', cfgHeaders = None, cfgParams = None\<rparr>])"
  by (simp add: executeApiCall_def initialConfig_def userTool_paramOf)
     (simp add: userTool_def idParam_def)

text \<open>
  Claim C6. For a tool with the path parameter \<open>id\<close> (required) and the query parameter
  \<open>limit\<close> (optional), the parameters \<^verbatim>\<open>{id: "42", limit: [1,2,3]}\<close> give one request,
  whose URL is the path template with \<^verbatim>\<open>42\<close> in the place of \<^verbatim>\<open>{id}\<close> and whose query
  map binds \<open>limit\<close> to the string \<^verbatim>\<open>1,2,3\<close> and nothing else; the parameters
  \<^verbatim>\<open>{id: "42"}\<close> give the same URL and no query map at all.
\<close>

theorem dispatch_binding:
  assumes "hasProperty tool ''id''" and "hasProperty tool ''limit''"
    and "paramOf tool ''id'' = Own pid" and "paramIn pid = Some ''path''"
    and "paramRequired pid = Some True"
    and "paramOf tool ''limit'' = Own plimit" and "paramIn plimit = Some ''query''"
    and "paramRequired plimit = Some False"
  shows "executeApiCall http tool [(''id'', Str ''42''), (''limit'', Arr [Num 1, Num 2, Num 3])]
         = (fromOutcome (http ((initialConfig tool)
               \<lparr>cfgUrl := replaceFirst ''{id}'' ''42'' (path tool),
                cfgParams := Some [''limit'' \<mapsto> Str ''1,2,3'']\<rparr>)),
            [(initialConfig tool)
               \<lparr>cfgUrl := replaceFirst ''{id}'' ''42'' (path tool),
                cfgParams := Some [''limit'' \<mapsto> Str ''1,2,3'']\<rparr>])
       \<and> executeApiCall http tool [(''id'', Str ''42'')]
         = (fromOutcome (http ((initialConfig tool)
               \<lparr>cfgUrl := replaceFirst ''{id}'' ''42'' (path tool)\<rparr>)),
            [(initialConfig tool)\<lparr>cfgUrl := replaceFirst ''{id}'' ''42'' (path tool)\<rparr>])
       \<and> cfgParams ((initialConfig tool)\<lparr>cfgUrl := replaceFirst ''{id}'' ''42'' (path tool)\<rparr>)
         = None"
proof -
  have enc: "encodeURIComponent ''42'' = ''42''"
    by code_simp
  have join: "joinArray [Num 1, Num 2, Num 3] = ''1,2,3''"
    by code_simp
  have q: "processQueryParams [''limit'' \<mapsto> Arr [Num 1, Num 2, Num 3]]
           = [''limit'' \<mapsto> Str ''1,2,3'']"
    by (rule ext) (simp add: processQueryParams_def join)
  have b1: "bindParameter tool c (''id'', Str ''42'')
            = Inr (c\<lparr>cfgUrl := replaceFirst ''{id}'' ''42'' (cfgUrl c)\<rparr>)" for c
    using assms by (simp add: bindParameter_def inOf_def enc)
  have b2: "cfgParams c = None \<Longrightarrow>
            bindParameter tool c (''limit'', Arr [Num 1, Num 2, Num 3])
            = Inr (c\<lparr>cfgParams := Some [''limit'' \<mapsto> Str ''1,2,3'']\<rparr>)" for c
    using assms by (simp add: bindParameter_def inOf_def q)
  show ?thesis
    by (simp add: executeApiCall_def initialConfig_def b1 b2)
qed

theorem dispatch_binding_witness:
  "executeApiCall echo userTool [(''id'', Str ''42''), (''limit'', Arr [Num 1, Num 2, Num 3])]
   = (Inr ''/users/42'',
      [\<lparr>cfgMethod = ''get'', cfgBaseURL = ''https://api.example.com'', cfgUrl = ''/users/42'',
        cfgHeaders = None, cfgParams = Some [''limit'' \<mapsto> Str ''1,2,3'']\<rparr>])
   \<and> executeApiCall echo userTool [(''id'', Str ''42'')]
   = (Inr ''/users/42'',
      [\<lparr>cfgMethod = ''get'', cfgBaseURL = ''https://api.example.com'', cfgUrl = ''/users/42'',
        cfgHeaders = None, cfgParams = None\<rparr>])"
proof -
  have r: "replaceFirst ''{id}'' ''42'' (path userTool) = ''/users/42''"
    by (simp add: userTool_def)
  have i: "initialConfig userTool = \<lparr>cfgMethod = ''get'', cfgBaseURL = ''https://api.example.com'',
     cfgUrl = ''/users/{id}'', cfgHeaders = None, cfgParams = None\<rparr>"
    by (simp add: initialConfig_def userTool_def)
  show ?thesis
    using dispatch_binding [of userTool idParam limitParam echo]
    by (simp add: userTool_hasProperty userTool_paramOf idParam_def limitParam_def r i
        echo_def fromOutcome_def)
qed

text \<open>
  Claim C9. For a parameter \<open>n\<close> that is found in \<^verbatim>\<open>inputSchema.properties\<close> and is an
  entry \<open>p\<close> of \<^verbatim>\<open>params\<close>, whatever the \<^verbatim>\<open>required\<close> field of \<open>p\<close> says: the loop
  body raises \<^verbatim>\<open>Missing required parameter: n\<close> when it meets \<open>n\<close> with the value
  \<^verbatim>\<open>undefined\<close>, from every configuration built so far; a call that supplies only \<open>n\<close>,
  as \<^verbatim>\<open>undefined\<close>, raises that error and issues no request; and a call that supplies
  \<open>n\<close> as \<^verbatim>\<open>undefined\<close> among other parameters raises the error for the first parameter
  that the check rejects and issues no request.
\<close>

theorem undefined_value_raises:
  assumes "hasProperty tool n" and "paramOf tool n = Own p"
  shows "bindParameter tool config (n, Undefined)
           = Inl (Error (''Missing required parameter: '' @ n))
         \<and> executeApiCall http tool [(n, Undefined)]
           = (Inl (Error (''Missing required parameter: '' @ n)), [])
         \<and> ((n, Undefined) \<in> set entries \<longrightarrow>
              (\<exists>k. (k, Undefined) \<in> set entries
                 \<and> List.find (declaredUndefined tool) entries = Some (k, Undefined)
                 \<and> executeApiCall http tool entries
                     = (Inl (Error (''Missing required parameter: '' @ k)), [])))"
proof -
  from assms have d: "declaredUndefined tool (n, Undefined)"
    by (simp add: declaredUndefined_def)
  then have b: "bindParameter tool c (n, Undefined)
                = Inl (Error (''Missing required parameter: '' @ n))" for c
    by (rule bindParameter_declaredUndefined)
  have "\<exists>k. (k, Undefined) \<in> set entries
          \<and> List.find (declaredUndefined tool) entries = Some (k, Undefined)
          \<and> executeApiCall http tool entries
              = (Inl (Error (''Missing required parameter: '' @ k)), [])"
    if "(n, Undefined) \<in> set entries"
  proof -
    from find_declaredUndefined [OF that d] obtain k where
      k: "(k, Undefined) \<in> set entries"
        "List.find (declaredUndefined tool) entries = Some (k, Undefined)"
      by blast
    from bindParameters_first_missing [OF k(2)] k show ?thesis
      by (auto simp: executeApiCall_def)
  qed
  with b show ?thesis by (simp add: executeApiCall_def)
qed

theorem undefined_value_raises_witness:
  "hasProperty userTool ''limit'' \<and> paramOf userTool ''limit'' = Own limitParam
   \<and> paramRequired limitParam = Some False
   \<and> executeApiCall echo userTool [(''limit'', Undefined)]
       = (Inl (Error ''Missing required parameter: limit''), [])
   \<and> executeApiCall echo userTool [(''id'', Str ''42''), (''limit'', Undefined)]
       = (Inl (Error ''Missing required parameter: limit''), [])"
proof -
  have f: "List.find (declaredUndefined userTool) [(''id'', Str ''42''), (''limit'', Undefined)]
     = Some (''limit'', Undefined)"
    by (simp add: declaredUndefined_def userTool_hasProperty userTool_paramOf)
  from undefined_value_raises [OF userTool_hasProperty(2) userTool_paramOf(2),
      of _ echo "[(''id'', Str ''42''), (''limit'', Undefined)]"] f
  show ?thesis
    by (auto simp: userTool_hasProperty userTool_paramOf limitParam_def)
qed

section \<open>Properties of the tool identifiers\<close>

text \<open>
  Claim C7. The tool identifier built for the method \<^verbatim>\<open>GET\<close> and the path template
  \<^verbatim>\<open>/users/{id}/posts\<close> is taken apart by \<open>parseToolId\<close> into a method that is
  \<^verbatim>\<open>get\<close> up to case and the path \<^verbatim>\<open>/users/id/posts\<close>.
\<close>

theorem toolId_roundtrip:
  "toLowerCase (fst (parseToolId (toolIdOf ''GET'' ''/users/{id}/posts''))) = ''get''
   \<and> snd (parseToolId (toolIdOf ''GET'' ''/users/{id}/posts'')) = ''/users/id/posts''"
  by code_simp

section \<open>Properties of the tool synthesis\<close>

lemma extends_refl: "extends st st"
  by (simp add: extends_def)

lemma extends_trans: "extends st st' \<Longrightarrow> extends st' st'' \<Longrightarrow> extends st st''"
  by (auto simp: extends_def)

lemma sharedParams_extends: "sharedParams st tool \<Longrightarrow> extends st st' \<Longrightarrow> sharedParams st' tool"
  unfolding sharedParams_def extends_def by (metis less_le_trans)

lemma addParameter_sharedParams:
  assumes "sharedParams st tool" and "addParameter entry (tool, st) = Inr (tool', st')"
  shows "sharedParams st' tool' \<and> extends st st'"
proof (cases entry)
  case Unrecognised
  with assms show ?thesis by (simp add: addParameter_def extends_refl)
next
  case (Parameter param)
  from assms(1) obtain m where m: "properties tool = Some m" "params tool = Some m"
    and old: "\<And>n a. m n = Some a \<Longrightarrow> a < length st \<and> complete (st ! a)"
    unfolding sharedParams_def by blast
  from assms(2) Parameter m obtain schemaType where s: "parameterSchema param = Some schemaType"
    by (auto simp: addParameter_def split: option.splits)
  define obj where "obj = \<lparr>paramType = orElse schemaType ''string'',
      paramDescription = orElse (parameterDescription param) (parameterName param @ '' parameter''),
      paramIn = Some (orElse (Some (parameterIn param)) ''query''),
      paramRequired = Some (case parameterRequired param of None \<Rightarrow> False | Some r \<Rightarrow> r)\<rparr>"
  have st': "st' = st @ [obj]"
    using assms(2) Parameter m s by (simp add: addParameter_def Let_def obj_def)
  have tool': "properties tool' = Some (setProperty m (parameterName param) (length st))"
    "params tool' = Some (setProperty m (parameterName param) (length st))"
    using assms(2) Parameter m s by (auto simp: addParameter_def Let_def)
  have "complete obj" by (simp add: complete_def obj_def)
  then have "a < length st' \<and> complete (st' ! a)"
    if "setProperty m (parameterName param) (length st) n = Some a" for n a
    using that old [of n a] by (auto simp: setProperty_def st' nth_append split: if_splits)
  then have "sharedParams st' tool'"
    unfolding sharedParams_def using tool' by blast
  moreover have "extends st st'"
    by (simp add: extends_def st' nth_append)
  ultimately show ?thesis by simp
qed

lemma addParameters_sharedParams:
  "sharedParams st tool \<Longrightarrow> addParameters entries (tool, st) = Inr (tool', st')
   \<Longrightarrow> sharedParams st' tool' \<and> extends st st'"
proof (induction entries arbitrary: tool st)
  case Nil
  then show ?case by (simp add: extends_refl)
next
  case (Cons entry entries)
  from Cons.prems(2) obtain tool1 st1 where
    1: "addParameter entry (tool, st) = Inr (tool1, st1)"
    and 2: "addParameters entries (tool1, st1) = Inr (tool', st')"
    by (auto split: sum.splits)
  from addParameter_sharedParams [OF Cons.prems(1) 1]
  have "sharedParams st1 tool1" "extends st st1" by simp_all
  with Cons.IH [OF _ 2] show ?case by (blast intro: extends_trans)
qed

lemma set_mapSet: "set (mapSet k v kvs) \<subseteq> insert (k, v) (set kvs)"
  by (induction kvs) (auto split: if_splits)

lemma addOperation_allShared:
  assumes "allShared syn" and "addOperation T providerName preparedTool p entry syn = Inr syn'"
  shows "allShared syn' \<and> extends (snd syn) (snd syn')"
proof (cases "syn' = syn")
  case True
  with assms show ?thesis by (simp add: extends_refl)
next
  case False
  obtain meth operation where entry: "entry = (meth, operation)" by (cases entry)
  obtain tools st where syn: "syn = (tools, st)" by (cases syn)
  from assms(2) False entry obtain op where op: "operation = Some op"
    by (cases operation) (auto simp: addOperation_def syn)
  from assms(2) False obtain shortName where
    sn: "abbreviateOperationId T (nameSourceOf op meth p) 64 = Inr shortName"
    unfolding addOperation_def entry syn op Let_def
    by (cases "abbreviateOperationId T (nameSourceOf op meth p) 64")
       (auto split: if_splits)
  define tool where "tool = \<lparr>name = providerName @ ''-'' @ shortName,
       description = orElse (operationDescription op)
         (''Make a '' @ toUpperCase meth @ '' request to '' @ p),
       properties = Some Map.empty, url = baseUrl preparedTool, path = p,
       headers = preparedHeaders preparedTool, httpMethod = toLowerCase meth,
       params = Some (Map.empty :: string \<rightharpoonup> nat)\<rparr>"
  have t0: "sharedParams st tool"
    by (simp add: sharedParams_def tool_def)
  from assms(2) False obtain tool' st' where
    r: "(case parameters op of None \<Rightarrow> Inr (tool, st)
         | Some entries \<Rightarrow> addParameters entries (tool, st)) = Inr (tool', st')"
    and syn': "syn' = (mapSet (toolIdOf meth p) tool' tools, st')"
    unfolding addOperation_def entry syn op tool_def Let_def
    by (auto simp: sn split: if_splits sum.splits)
  have "sharedParams st' tool' \<and> extends st st'"
  proof (cases "parameters op")
    case None
    with r t0 show ?thesis by (auto simp: extends_refl)
  next
    case (Some entries)
    with r have "addParameters entries (tool, st) = Inr (tool', st')" by simp
    from addParameters_sharedParams [OF t0 this] show ?thesis .
  qed
  then have new: "sharedParams st' tool'" and ext: "extends st st'" by simp_all
  have "sharedParams st' t" if "(i, t) \<in> set (mapSet (toolIdOf meth p) tool' tools)" for i t
  proof -
    from that set_mapSet [of "toolIdOf meth p" tool' tools]
    have "(i, t) = (toolIdOf meth p, tool') \<or> (i, t) \<in> set tools" by auto
    then show ?thesis
    proof
      assume "(i, t) = (toolIdOf meth p, tool')"
      with new show ?thesis by simp
    next
      assume "(i, t) \<in> set tools"
      with assms(1) syn have "sharedParams st t" by (auto simp: allShared_def)
      then show ?thesis using ext by (rule sharedParams_extends)
    qed
  qed
  with ext show ?thesis by (auto simp: allShared_def syn syn')
qed

lemma addOperations_allShared:
  "allShared syn \<Longrightarrow> addOperations T providerName preparedTool p entries syn = Inr syn'
   \<Longrightarrow> allShared syn' \<and> extends (snd syn) (snd syn')"
proof (induction entries arbitrary: syn)
  case Nil
  then show ?case by (simp add: extends_refl)
next
  case (Cons entry entries)
  from Cons.prems(2) obtain syn1 where
    1: "addOperation T providerName preparedTool p entry syn = Inr syn1"
    and 2: "addOperations T providerName preparedTool p entries syn1 = Inr syn'"
    by (auto split: sum.splits)
  from addOperation_allShared [OF Cons.prems(1) 1]
  have "allShared syn1" "extends (snd syn) (snd syn1)" by simp_all
  with Cons.IH [OF _ 2] show ?case by (blast intro: extends_trans)
qed

lemma addPaths_allShared:
  "allShared syn \<Longrightarrow> addPaths T providerName preparedTool ps syn = Inr syn'
   \<Longrightarrow> allShared syn' \<and> extends (snd syn) (snd syn')"
proof (induction ps arbitrary: syn)
  case Nil
  then show ?case by (simp add: extends_refl)
next
  case (Cons entry ps)
  obtain p item where entry: "entry = (p, item)" by (cases entry)
  show ?case
  proof (cases item)
    case None
    with Cons entry show ?thesis by simp
  next
    case (Some pathItem)
    with Cons.prems(2) entry obtain syn1 where
      1: "addOperations T providerName preparedTool p pathItem syn = Inr syn1"
      and 2: "addPaths T providerName preparedTool ps syn1 = Inr syn'"
      by (auto split: sum.splits)
    from addOperations_allShared [OF Cons.prems(1) 1]
    have "allShared syn1" "extends (snd syn) (snd syn1)" by simp_all
    with Cons.IH [OF _ 2] show ?thesis by (blast intro: extends_trans)
  qed
qed

lemma userTool_synthesis:
  "parseOpenAPISpec exampleTables ''example'' userPrepared []
   = Inr ([(''GET-users-id'', userSynthTool)], [idParam, limitParam])"
proof -
  have n: "abbreviateOperationId exampleTables ''getUserIdentifier'' 64 = Inr ''user-id''"
    by code_simp
  have i: "toolIdOf ''get'' ''/users/{id}'' = ''GET-users-id''"
    by code_simp
  have c: "toLowerCase ''get'' = ''get''" "toUpperCase ''get'' = ''GET''"
    by code_simp+
  show ?thesis
    by (simp add: parseOpenAPISpec_def userPrepared_def userDocument_def userOperation_def
        addOperation_def addParameter_def setProperty_def httpMethods_def nameSourceOf_def orElse_def n i c
        userSynthTool_def idParam_def limitParam_def)
qed

text \<open>
  Claim C5 does not hold of the code. For an operation without \<^verbatim>\<open>operationId\<close> and
  with the summary \<^verbatim>\<open>List users\<close>, the name source of
  \<^verbatim>\<open>OpenAPISpecsLoader.parseOpenAPISpec\<close> is \<^verbatim>\<open>GET /users\<close>: the summary is not
  consulted. The older \<^verbatim>\<open>OpenAPISpecLoader.parseOpenAPISpec\<close> takes the summary.
\<close>

theorem summary_not_used_as_name_source:
  "operationId listUsersOperation = None \<and> summary listUsersOperation = Some ''List users''
   \<and> nameSourceOf listUsersOperation ''get'' ''/users'' = ''GET /users''
   \<and> legacyNameSourceOf listUsersOperation ''get'' ''/users'' = ''List users''"
  by code_simp

text \<open>
  Claim C10. In every tool that \<open>parseOpenAPISpec\<close> produces, \<^verbatim>\<open>inputSchema.properties\<close>
  and \<^verbatim>\<open>params\<close> are the same map from parameter names to addresses, so they have
  the same keys and hold the same object under each key, and every such object has the
  fields \<^verbatim>\<open>in\<close> and \<^verbatim>\<open>required\<close> beside its type and description.
\<close>

theorem synthesized_params_shared:
  assumes "parseOpenAPISpec T providerName preparedTool st0 = Inr (tools, st)"
    and "(toolId, tool) \<in> set tools"
  shows "\<exists>m. properties tool = Some m \<and> params tool = Some m
           \<and> (\<forall>n a. m n = Some a \<longrightarrow>
                 a < length st \<and> paramIn (st ! a) \<noteq> None \<and> paramRequired (st ! a) \<noteq> None)"
proof -
  have "allShared ([], st0)" by (simp add: allShared_def)
  from addPaths_allShared [OF this assms(1) [unfolded parseOpenAPISpec_def]]
  have "allShared (tools, st)" by simp
  with assms(2) have "sharedParams st tool" by (auto simp: allShared_def)
  then show ?thesis by (simp add: sharedParams_def complete_def)
qed

theorem synthesized_params_shared_witness:
  "parseOpenAPISpec exampleTables ''example'' userPrepared []
     = Inr ([(''GET-users-id'', userSynthTool)], [idParam, limitParam])
   \<and> (''GET-users-id'', userSynthTool) \<in> set [(''GET-users-id'', userSynthTool)]
   \<and> (\<exists>m. properties userSynthTool = Some m \<and> params userSynthTool = Some m
         \<and> (\<forall>n a. m n = Some a \<longrightarrow>
               a < length [idParam, limitParam] \<and> paramIn ([idParam, limitParam] ! a) \<noteq> None
               \<and> paramRequired ([idParam, limitParam] ! a) \<noteq> None))"
proof -
  have m: "(''GET-users-id'', userSynthTool) \<in> set [(''GET-users-id'', userSynthTool)]"
    by simp
  from synthesized_params_shared [OF userTool_synthesis m] userTool_synthesis m
  show ?thesis by blast
qed

section \<open>Properties of the loader\<close>

lemma readConfig_absent:
  "baseUrlAbsent dir \<Longrightarrow>
   readConfig dir
   = Inl (Error (''Failed to read config.json for '' @ dirName dir @ '': '' @ configFailure dir))"
  by (auto simp: baseUrlAbsent_def configFailure_def readConfig_def
      split: configFile.splits option.splits)

lemma readConfig_present: "\<not> baseUrlAbsent dir \<Longrightarrow> \<exists>r. readConfig dir = Inr r"
  by (auto simp: baseUrlAbsent_def readConfig_def split: configFile.splits option.splits)

lemma loadProviders_first_absent:
  "List.find baseUrlAbsent subdirs = Some dir \<Longrightarrow>
   loadProviders subdirs specifications
   = Inl (Error (''Failed to read config.json for '' @ dirName dir @ '': '' @ configFailure dir))"
proof (induction subdirs arbitrary: specifications)
  case Nil
  then show ?case by simp
next
  case (Cons subdir subdirs)
  show ?case
  proof (cases "baseUrlAbsent subdir")
    case True
    with Cons.prems have "subdir = dir" by simp
    with True show ?thesis by (simp add: readConfig_absent)
  next
    case False
    then obtain r where r: "readConfig subdir = Inr r"
      using readConfig_present by blast
    from False Cons.prems have "List.find baseUrlAbsent subdirs = Some dir" by simp
    from Cons.IH [OF this] r show ?thesis
      by (cases r) (simp split: option.splits)
  qed
qed

text \<open>
  Claim C4, as amended. When one of the provider directories has no base URL, the load
  fails as a whole: \<open>loadOpenAPISpecs\<close> raises the error
  \<^verbatim>\<open>Failed to load OpenAPI specifications: Failed to read config.json for\<close> followed by
  the name of the first directory without base URL and what went wrong there. It returns
  no provider, also none of those with a valid configuration and specification, and
  \<open>initialize\<close> ends with the same error before any tool is synthesized.
\<close>

theorem missing_base_url_fails_whole_load:
  assumes "dir \<in> set subdirs" and "baseUrlAbsent dir"
  shows "\<exists>first. List.find baseUrlAbsent subdirs = Some first
           \<and> loadOpenAPISpecs specsDirPath (Directory subdirs)
               = Inl (Error (''Failed to load OpenAPI specifications: ''
                    @ ''Failed to read config.json for '' @ dirName first @ '': ''
                    @ configFailure first))
           \<and> initialize T specsDirPath (Directory subdirs)
               = Inl (Error (''Failed to load OpenAPI specifications: ''
                    @ ''Failed to read config.json for '' @ dirName first @ '': ''
                    @ configFailure first))"
proof -
  from assms(1) have ne: "length subdirs \<noteq> 0" by auto
  from assms obtain first where f: "List.find baseUrlAbsent subdirs = Some first"
    by (cases "List.find baseUrlAbsent subdirs") (auto simp: find_None_iff)
  from loadProviders_first_absent [OF f, of "[]"] ne f show ?thesis
    by (simp add: loadOpenAPISpecs_def initialize_def errorMessage_def)
qed

theorem missing_base_url_fails_whole_load_witness:
  "brokenProvider \<in> set [exampleProvider, brokenProvider] \<and> baseUrlAbsent brokenProvider
   \<and> List.find baseUrlAbsent [exampleProvider, brokenProvider] = Some brokenProvider
   \<and> loadOpenAPISpecs ''specs'' (Directory [exampleProvider, brokenProvider])
       = Inl (Error (''Failed to load OpenAPI specifications: ''
            @ ''Failed to read config.json for '' @ dirName brokenProvider @ '': ''
            @ configFailure brokenProvider))
   \<and> initialize exampleTables ''specs'' (Directory [exampleProvider, brokenProvider])
       = Inl (Error (''Failed to load OpenAPI specifications: ''
            @ ''Failed to read config.json for '' @ dirName brokenProvider @ '': ''
            @ configFailure brokenProvider))"
proof -
  have b: "baseUrlAbsent brokenProvider"
    by (simp add: baseUrlAbsent_def brokenProvider_def)
  have m: "brokenProvider \<in> set [exampleProvider, brokenProvider]"
    by simp
  have f: "List.find baseUrlAbsent [exampleProvider, brokenProvider] = Some brokenProvider"
    by (simp add: baseUrlAbsent_def exampleProvider_def brokenProvider_def)
  from missing_base_url_fails_whole_load [OF m b, of "''specs''" exampleTables]
  obtain first where
    "List.find baseUrlAbsent [exampleProvider, brokenProvider] = Some first"
    "loadOpenAPISpecs ''specs'' (Directory [exampleProvider, brokenProvider])
       = Inl (Error (''Failed to load OpenAPI specifications: ''
            @ ''Failed to read config.json for '' @ dirName first @ '': ''
            @ configFailure first))"
    "initialize exampleTables ''specs'' (Directory [exampleProvider, brokenProvider])
       = Inl (Error (''Failed to load OpenAPI specifications: ''
            @ ''Failed to read config.json for '' @ dirName first @ '': ''
            @ configFailure first))"
    by blast
  with f have "first = brokenProvider" by simp
  with \<open>loadOpenAPISpecs ''specs'' (Directory [exampleProvider, brokenProvider]) = _\<close>
    \<open>initialize exampleTables ''specs'' (Directory [exampleProvider, brokenProvider]) = _\<close>
    m b f
  show ?thesis by (simp only: simp_thms)
qed

text \<open>
  Claim C4 as stated fails: the provider \<open>example\<close> is loaded when it stands alone, and
  is not when the directory \<open>broken\<close>, without base URL, stands beside it.
\<close>

theorem missing_base_url_fails_whole_load_counterexample:
  "loadOpenAPISpecs ''specs'' (Directory [exampleProvider])
     = Inr [(''example'', userPrepared)]
   \<and> loadOpenAPISpecs ''specs'' (Directory [exampleProvider, brokenProvider])
     = Inl (Error (''Failed to load OpenAPI specifications: ''
          @ ''Failed to read config.json for broken: ''
          @ ''No baseUrl provided in config.json for broken''))"
  by (simp add: loadOpenAPISpecs_def readConfig_def exampleProvider_def brokenProvider_def
      userPrepared_def errorMessage_def)

end
